theory Spec2Isabelle
  imports Complex_Main
begin

section \<open>The player object\<close>

text \<open>
  The model follows \<^verbatim>\<open>src/media_handler.py\<close>, class \<^verbatim>\<open>AudioPlayer\<close>.
  The object's attributes are the fields of the record \<open>player\<close>. A
  \<^verbatim>\<open>threading.Event\<close> is the boolean it holds (\<^verbatim>\<open>set()\<close> stores True,
  \<^verbatim>\<open>clear()\<close> stores False, \<^verbatim>\<open>is_set()\<close> reads it); a thread blocked in
  \<^verbatim>\<open>wait()\<close> is a thread with no step while the boolean is False (section
  \<open>The threads\<close>). The re-entrant lock is not a field: every block the source runs
  under \<^verbatim>\<open>with self.lock\<close> is one atomic step of the model. Python floats are
  modelled by the reals (no rounding, no NaN, no infinities); where the source can
  produce a NaN the model says so with an \<open>option\<close>. The attribute
  \<^verbatim>\<open>audio_info\<close> and the two loudness arrays are written once by the
  constructor and never read, and are left out.
\<close>

datatype pyerr =
  TypeError | ValueError | ZeroDivisionError | UnboundLocalError | LibsndfileError | OSError

text \<open>An array of samples as numpy holds it: real numbers, or an array with NaN or
  infinite entries, which the model does not look into.\<close>

datatype normalized = Samples "real list" | NaNSamples

record player =
  volume :: real
  normalization_max :: real
  normalization_min :: real
  normalization_bias :: real
  audio_path :: "string option"
  audio_channels :: int
  audio_frames :: int
  audio_sample_rate :: int
  is_playback_unpaused :: bool
  is_stopped :: bool
  no_audio_loaded :: bool
  is_window_focused :: bool
  display_frame_data :: "normalized option"
  display_skip_rate :: int
  display_frame_chunk_ratio :: int
  current_frame :: int

text \<open>\<^verbatim>\<open>AudioPlayer.__init__\<close> (lines 35-76). The arguments are stored as given;
  only \<^verbatim>\<open>display_skip_rate\<close> is adjusted.\<close>

definition AudioPlayer_init ::
  "real \<Rightarrow> real \<Rightarrow> real \<Rightarrow> real \<Rightarrow> string option \<Rightarrow> int \<Rightarrow> int \<Rightarrow> player" where
  "AudioPlayer_init normalization_max_arg normalization_min_arg normalization_bias_arg
       volume_arg inital_audio_path display_frame_chunk_ratio_arg display_skip_rate_arg =
     \<lparr> volume = volume_arg,
       normalization_max = normalization_max_arg,
       normalization_min = normalization_min_arg,
       normalization_bias = normalization_bias_arg,
       audio_path = inital_audio_path,
       audio_channels = 0,
       audio_frames = 0,
       audio_sample_rate = 0,
       is_playback_unpaused = True,
       is_stopped = False,
       no_audio_loaded = True,
       is_window_focused = False,
       display_frame_data = None,
       display_skip_rate =
         (if display_skip_rate_arg > 1 then display_skip_rate_arg else 1),
       display_frame_chunk_ratio = display_frame_chunk_ratio_arg,
       current_frame = 0 \<rparr>"

text \<open>The constructor with every default of its signature but the volume.\<close>

definition AudioPlayer_with_volume :: "real \<Rightarrow> player" where
  "AudioPlayer_with_volume v = AudioPlayer_init (- 3) (- 20) (1 / 8) v None 50 1"

subsection \<open>Pause, seek and volume (lines 184-231)\<close>

text \<open>The test \<^verbatim>\<open>self.is_playback_unpaused is not None\<close> is always true: the
  attribute is the event the constructor made.\<close>

definition pause_audio :: "player \<Rightarrow> player" where
  "pause_audio s =
     (if audio_frames s > 0 then s\<lparr>is_playback_unpaused := False\<rparr> else s)"

definition unpause_audio :: "player \<Rightarrow> player" where
  "unpause_audio s =
     (if audio_frames s > 0 then s\<lparr>is_playback_unpaused := True\<rparr> else s)"

definition toggle_pause :: "player \<Rightarrow> player" where
  "toggle_pause s =
     (if is_playback_unpaused s then pause_audio s else unpause_audio s)"

text \<open>Python's \<^verbatim>\<open>int(x)\<close> on a float truncates towards zero.\<close>

definition py_int :: "real \<Rightarrow> int" where
  "py_int x = (if 0 \<le> x then \<lfloor>x\<rfloor> else \<lceil>x\<rceil>)"

definition seek :: "real \<Rightarrow> bool \<Rightarrow> player \<Rightarrow> player" where
  "seek position percentage s =
     (if audio_frames s > 0 then
        (if percentage
         then s\<lparr>current_frame := py_int (of_int (audio_frames s) * position)\<rparr>
         else s\<lparr>current_frame := py_int position\<rparr>)
      else s)"

definition set_volume :: "real \<Rightarrow> player \<Rightarrow> player" where
  "set_volume target_volume s = s\<lparr>volume := min (max 0 target_volume) 1\<rparr>"

definition get_display_frames :: "player \<Rightarrow> normalized option" where
  "get_display_frames s = (if audio_frames s > 0 then display_frame_data s else None)"

text \<open>The three pause operations as commands, and a sequence of them run in order.\<close>

datatype pause_op = Pause | Unpause | Toggle

fun run_pause_op :: "pause_op \<Rightarrow> player \<Rightarrow> player" where
  "run_pause_op Pause s = pause_audio s"
| "run_pause_op Unpause s = unpause_audio s"
| "run_pause_op Toggle s = toggle_pause s"

fun run_pause_ops :: "pause_op list \<Rightarrow> player \<Rightarrow> player" where
  "run_pause_ops [] s = s"
| "run_pause_ops (c # cs) s = run_pause_ops cs (run_pause_op c s)"

section \<open>The streaming normaliser\<close>

subsection \<open>Target loudness (lines 78-105)\<close>

text \<open>
  \<^verbatim>\<open>pyln.Meter(rate, block_size).integrated_loudness(data)\<close> belongs to the
  library pyloudnorm, not to this repository: it is a parameter of the model, given the
  sample rate, the block size and the chunk, and returning a loudness or raising.
  A chunk is the list of its samples (one sample per frame; numpy applies every
  operation used here element by element, whatever the number of channels).
\<close>

type_synonym meter = "int \<Rightarrow> real \<Rightarrow> real list \<Rightarrow> pyerr + real"

text \<open>
  The repository calls \<^verbatim>\<open>find_target_loudness\<close> at one place, line 149, with the
  chunk and nothing else: every keyword parameter of the signature has its default
  there. The model is the function at these defaults, each of them a constant under the
  parameter's name (\<^verbatim>\<open>std__compression_max\<close> is written as the docstring writes
  it).
\<close>

definition input_range :: real where
  "input_range = 70"

definition target_dynamic_range :: real where
  "target_dynamic_range = 50"

definition loudness_compression_factor :: real where
  "loudness_compression_factor = 1"

definition loudness_upper_limit :: real where
  "loudness_upper_limit = 10"

definition std_compression_max :: real where
  "std_compression_max = 975 / 1000"

definition std_compression_factor :: real where
  "std_compression_factor = 8 / 10"

definition expected_std_max :: real where
  "expected_std_max = 35 / 10"

definition np_mean :: "real list \<Rightarrow> real" where
  "np_mean xs = sum_list xs / real (length xs)"

text \<open>\<^verbatim>\<open>np.std\<close>: the root of the mean squared deviation from the mean. On an empty
  array numpy returns NaN (with a warning): \<open>None\<close>.\<close>

definition np_std :: "real list \<Rightarrow> real option" where
  "np_std xs =
     (if xs = [] then None
      else Some (sqrt (np_mean (map (\<lambda>x. (x - np_mean xs)\<^sup>2) xs))))"

text \<open>Line 95: the measured loudness, clamped. The meter's minus infinity on a silent
  chunk is clamped like every value below \<open>- input_range\<close>.\<close>

definition loudness_point :: "real \<Rightarrow> real" where
  "loudness_point measured = max (min measured 0) (- input_range)"

text \<open>Lines 96-98, as a function of the measured loudness, and line 102, as a function
  of the chunk. Python's \<^verbatim>\<open>**\<close> on floats is \<open>powr\<close> when the base is positive, and
  when the base is zero and the exponent positive. That is the case at each of the four
  uses: the bases are \<open>loudness_point + 70\<close>, in \<open>[0, 70]\<close> by the clamp of line 95,
  then 69, the deviation of the chunk, never negative, and 3.5; the exponents are 1,
  -1, 0.8 and -0.8. The deviation of an empty chunk is NaN, and so is the multiplier
  then.\<close>

definition loudness_point_target_loudness :: "real \<Rightarrow> real" where
  "loudness_point_target_loudness measured =
     ((target_dynamic_range - loudness_upper_limit) / target_dynamic_range)
       * target_dynamic_range
       * ((loudness_point measured + input_range) powr (1 / loudness_compression_factor))
       * ((input_range - 1) powr ((- 1) / loudness_compression_factor))
     - target_dynamic_range"

definition audio_std_target_loudness :: "real list \<Rightarrow> real option" where
  "audio_std_target_loudness audio_data =
     (case np_std (map abs audio_data) of
        None \<Rightarrow> None
      | Some audio_std \<Rightarrow>
          Some ((1 - std_compression_max) * (audio_std powr std_compression_factor)
                  * expected_std_max powr (- std_compression_factor)
                + std_compression_max))"

text \<open>The result is \<open>Inl e\<close> when the call raises \<open>e\<close>, \<open>Inr None\<close> when it returns
  NaN (empty chunk), \<open>Inr (Some t)\<close> when it returns the float \<open>t\<close>. The division
  \<^verbatim>\<open>len(audio_data)/self.audio_sample_rate\<close> raises when no header has been stored
  yet.\<close>

definition find_target_loudness :: "meter \<Rightarrow> int \<Rightarrow> real list \<Rightarrow> pyerr + real option" where
  "find_target_loudness m rate audio_data =
     (if rate = 0 then Inl ZeroDivisionError
      else case m rate (real (length audio_data) / of_int rate) audio_data of
        Inl e \<Rightarrow> Inl e
      | Inr measured \<Rightarrow>
          (case audio_std_target_loudness audio_data of
             None \<Rightarrow> Inr None
           | Some std_multiplier \<Rightarrow>
               Inr (Some (min (loudness_point_target_loudness measured * std_multiplier) 0))))"

subsection \<open>The callback (lines 140-164)\<close>

text \<open>
  The open \<^verbatim>\<open>sf.SoundFile\<close> is an object of the library soundfile: the model
  takes its header fields and its two operations as they are used, \<^verbatim>\<open>seek\<close> to a
  frame (\<open>Some e\<close> when it raises) and \<^verbatim>\<open>read\<close> of a number of frames from a
  position.
\<close>

record soundfile =
  sf_channels :: int
  sf_samplerate :: int
  sf_frames :: int
  sf_seek :: "int \<Rightarrow> pyerr option"
  sf_read :: "int \<Rightarrow> int \<Rightarrow> pyerr + real list"

text \<open>A file held in memory: seeking outside \<open>[0, frames]\<close> raises, a read returns
  the frames that are there (all the rest for a negative count).\<close>

definition list_file :: "int \<Rightarrow> real list \<Rightarrow> soundfile" where
  "list_file rate xs =
     \<lparr> sf_channels = 1, sf_samplerate = rate, sf_frames = int (length xs),
       sf_seek = (\<lambda>pos. if 0 \<le> pos \<and> pos \<le> int (length xs) then None
                         else Some LibsndfileError),
       sf_read = (\<lambda>pos n. Inr (if n < 0 then drop (nat pos) xs
                                  else take (nat n) (drop (nat pos) xs))) \<rparr>"

text \<open>Line 151: \<^verbatim>\<open>data[data == 0] = 1e-12\<close>.\<close>

definition zero_to_eps :: "real list \<Rightarrow> real list" where
  "zero_to_eps data = map (\<lambda>x. if x = 0 then 1 / 10 ^ 12 else x) data"

text \<open>\<^verbatim>\<open>pyln.normalize.peak(data, target)\<close> of pyloudnorm: the gain
  \<open>10 ** (target / 20) / max |data|\<close> applied to every sample. The maximum of an
  empty array raises ValueError. A chunk of exact zeros makes numpy divide by zero and
  return NaN samples (\<open>NaNSamples\<close>); the callers below replace zeros first.\<close>

definition peak_scale :: "real \<Rightarrow> real" where
  "peak_scale target = 10 powr (target / 20)"

definition current_peak :: "real list \<Rightarrow> real" where
  "current_peak data = Max (set (map abs data))"

definition pyln_normalize_peak :: "real list \<Rightarrow> real \<Rightarrow> pyerr + normalized" where
  "pyln_normalize_peak data target =
     (if data = [] then Inl ValueError
      else if current_peak data = 0 then Inr NaNSamples
      else Inr (Samples (map (\<lambda>x. peak_scale target / current_peak data * x) data)))"

text \<open>Lines 160 and 163: \<^verbatim>\<open>pyln.normalize.peak(d, t)*0.9 + 0.1*d\<close>.\<close>

definition normalize_blend :: "real list \<Rightarrow> real \<Rightarrow> pyerr + normalized" where
  "normalize_blend data target =
     (case pyln_normalize_peak data target of
        Inl e \<Rightarrow> Inl e
      | Inr NaNSamples \<Rightarrow> Inr NaNSamples
      | Inr (Samples n) \<Rightarrow> Inr (Samples (map2 (\<lambda>a b. a * (9 / 10) + (1 / 10) * b) n data)))"

text \<open>The slice \<^verbatim>\<open>xs[::k]\<close>: every \<open>k\<close>-th element from the first; from the last
  backwards for a negative step; ValueError for step zero.\<close>

function every_nth :: "nat \<Rightarrow> 'a list \<Rightarrow> 'a list" where
  "every_nth k [] = []"
| "every_nth k (x # xs) = x # every_nth k (drop (k - 1) xs)"
  by pat_completeness auto
termination
  by (relation "measure (\<lambda>(k, xs). length xs)") auto

definition py_slice_step :: "int \<Rightarrow> 'a list \<Rightarrow> pyerr + 'a list" where
  "py_slice_step k xs =
     (if k = 0 then Inl ValueError
      else if 0 < k then Inr (every_nth (nat k) xs)
      else Inr (every_nth (nat (- k)) (rev xs)))"

text \<open>Lines 155-162, run when the window is focused: the look-ahead read continues where
  the chunk's read stopped; only ValueError is swallowed.\<close>

definition display_lookahead ::
  "soundfile \<Rightarrow> nat \<Rightarrow> int \<Rightarrow> real \<Rightarrow> player \<Rightarrow> pyerr + normalized" where
  "display_lookahead file frame_count pos target s =
     (case sf_read file pos (display_frame_chunk_ratio s * int frame_count) of
        Inl e \<Rightarrow> Inl e
      | Inr d \<Rightarrow>
          (case py_slice_step (display_skip_rate s) d of
             Inl e \<Rightarrow> Inl e
           | Inr d1 \<Rightarrow> normalize_blend (zero_to_eps d1) target))"

definition update_display ::
  "soundfile \<Rightarrow> nat \<Rightarrow> int \<Rightarrow> real \<Rightarrow> player \<Rightarrow> pyerr + player" where
  "update_display file frame_count pos target s =
     (case display_lookahead file frame_count pos target s of
        Inl e \<Rightarrow> (if e = ValueError then Inr s else Inl e)
      | Inr b \<Rightarrow> Inr (s\<lparr>display_frame_data := Some b\<rparr>))"

datatype cb_result = paComplete | paContinue normalized

text \<open>Lines 145-164, the block under the lock. The result pairs the player after the
  block with what the callback returns or raises. The order is the source's: seek,
  advance the cursor, read, target loudness of the chunk as read, zero replacement,
  empty test, display look-ahead, normalise and blend, volume. A NaN target comes
  from an empty chunk only, which has returned before the target is used; the branch
  for it is there to make the function total.\<close>

definition callback_locked ::
  "meter \<Rightarrow> soundfile \<Rightarrow> nat \<Rightarrow> player \<Rightarrow> player \<times> (pyerr + cb_result)" where
  "callback_locked m file frame_count s =
     (case sf_seek file (current_frame s) of
        Some e \<Rightarrow> (s, Inl e)
      | None \<Rightarrow>
          let s1 = s\<lparr>current_frame := current_frame s + int frame_count\<rparr> in
          (case sf_read file (current_frame s) (int frame_count) of
             Inl e \<Rightarrow> (s1, Inl e)
           | Inr raw \<Rightarrow>
               (case find_target_loudness m (audio_sample_rate s1) raw of
                  Inl e \<Rightarrow> (s1, Inl e)
                | Inr target_loudness \<Rightarrow>
                    let data = zero_to_eps raw in
                    if length data = 0 then (s1, Inr paComplete)
                    else (case target_loudness of
                            None \<Rightarrow> (s1, Inr (paContinue NaNSamples))
                          | Some t \<Rightarrow>
                              (case (if is_window_focused s1
                                     then update_display file frame_count
                                            (current_frame s + int (length raw)) t s1
                                     else Inr s1) of
                                 Inl e \<Rightarrow> (s1, Inl e)
                               | Inr s2 \<Rightarrow>
                                   (case normalize_blend data t of
                                      Inl e \<Rightarrow> (s2, Inl e)
                                    | Inr NaNSamples \<Rightarrow> (s2, Inr (paContinue NaNSamples))
                                    | Inr (Samples normalized_data) \<Rightarrow>
                                        (s2, Inr (paContinue (Samples
                                               (map (\<lambda>x. x * volume s2) normalized_data))))))))))"

text \<open>Lines 142-164: the callback once its wait on the unpaused event has returned, with
  no other thread running in between.\<close>

definition callback ::
  "meter \<Rightarrow> soundfile \<Rightarrow> nat \<Rightarrow> player \<Rightarrow> player \<times> (pyerr + cb_result)" where
  "callback m file frame_count s =
     (if is_stopped s then (s, Inr paComplete) else callback_locked m file frame_count s)"

section \<open>The threads\<close>

subsection \<open>The streaming task (lines 132-180)\<close>

text \<open>
  \<^verbatim>\<open>start_audio_stream_thread\<close> runs in a thread of its own, and the device calls
  \<^verbatim>\<open>callback\<close> from another; the task spins in \<^verbatim>\<open>while stream.is_active()\<close>
  for as long as the callbacks go on, so the two are one sequential process here. Its
  state is the line it is at, with the local variables alive there: the open file
  from line 135 until the stream ends; in the \<^verbatim>\<open>finally\<close> block whether \<^verbatim>\<open>p\<close>
  was ever assigned, and the exception in flight, if any. \<open>Exited x\<close> is the thread
  after its last line, ended by the exception \<open>x\<close> if there is one.

  What lies outside the repository is the \<open>world\<close>: the files that
  \<^verbatim>\<open>sf.SoundFile\<close> and \<^verbatim>\<open>sf.info\<close> find under a path, and the loudness meter.
  The audio device is nondeterministic: \<^verbatim>\<open>pyaudio.PyAudio()\<close>, \<^verbatim>\<open>p.open\<close>,
  \<^verbatim>\<open>start_stream\<close> and \<^verbatim>\<open>stop_stream\<close>/\<^verbatim>\<open>close\<close> each succeed or raise,
  and after a chunk the device asks for the next one or ends the stream (as it does
  when the buffer returned is short). A callback that raises ends the stream without
  raising in the task. Every step is one line of the source, but for lines 136-138
  (\<^verbatim>\<open>sf.info\<close> and the two stores of its fields) and the block under the lock,
  lines 145-164.
\<close>

record world =
  open_file :: "string option \<Rightarrow> pyerr + soundfile"
  loudness_meter :: meter

datatype stream_pc =
    L134
  | L135
  | L136 soundfile
  | L165 soundfile
  | L171 soundfile
  | L141 soundfile
  | L142 soundfile
  | L145 soundfile
  | L174
  | L177 bool "pyerr option"
  | L178 "pyerr option"
  | L179 "pyerr option"
  | Exited "pyerr option"

fun stream_succ :: "world \<Rightarrow> nat \<Rightarrow> stream_pc \<times> player \<Rightarrow> (stream_pc \<times> player) list" where
  "stream_succ w n (L134, sh) = [(L135, sh), (L177 False (Some OSError), sh)]"
| "stream_succ w n (L135, sh) =
     (case open_file w (audio_path sh) of
        Inl e \<Rightarrow> [(L177 True (Some e), sh)]
      | Inr f \<Rightarrow> [(L136 f, sh)])"
| "stream_succ w n (L136 f, sh) =
     (case open_file w (audio_path sh) of
        Inl e \<Rightarrow> [(L177 True (Some e), sh)]
      | Inr audio_info \<Rightarrow>
          [(L165 f, sh\<lparr>audio_sample_rate := sf_samplerate audio_info,
                         audio_frames := sf_frames audio_info\<rparr>)])"
| "stream_succ w n (L165 f, sh) = [(L171 f, sh), (L177 True (Some OSError), sh)]"
| "stream_succ w n (L171 f, sh) = [(L141 f, sh), (L177 True (Some OSError), sh)]"
| "stream_succ w n (L141 f, sh) = (if is_playback_unpaused sh then [(L142 f, sh)] else [])"
| "stream_succ w n (L142 f, sh) = (if is_stopped sh then [(L174, sh)] else [(L145 f, sh)])"
| "stream_succ w n (L145 f, sh) =
     (case callback_locked (loudness_meter w) f n sh of
        (sh', Inr (paContinue buffer)) \<Rightarrow> [(L141 f, sh'), (L174, sh')]
      | (sh', Inr paComplete) \<Rightarrow> [(L174, sh')]
      | (sh', Inl e) \<Rightarrow> [(L174, sh')])"
| "stream_succ w n (L174, sh) = [(L177 True None, sh), (L177 True (Some OSError), sh)]"
| "stream_succ w n (L177 bound x, sh) =
     (if bound then [(L178 x, sh)] else [(Exited (Some UnboundLocalError), sh)])"
| "stream_succ w n (L178 x, sh) = [(L179 x, sh\<lparr>no_audio_loaded := True\<rparr>)]"
| "stream_succ w n (L179 x, sh) = [(Exited x, sh\<lparr>current_frame := 0\<rparr>)]"
| "stream_succ w n (Exited x, sh) = []"

text \<open>One step of the task with no other thread running, and its runs.\<close>

definition stream_step :: "world \<Rightarrow> nat \<Rightarrow> stream_pc \<times> player \<Rightarrow> stream_pc \<times> player \<Rightarrow> bool" where
  "stream_step w n c c' \<longleftrightarrow> c' \<in> set (stream_succ w n c)"

definition stream_run :: "world \<Rightarrow> nat \<Rightarrow> stream_pc \<times> player \<Rightarrow> stream_pc \<times> player \<Rightarrow> bool" where
  "stream_run w n = (stream_step w n)\<^sup>*\<^sup>*"

subsection \<open>The controller in \<^verbatim>\<open>start_audio_playback\<close> (lines 117-130, 181-182)\<close>

text \<open>
  The system is the player, the thread that called \<^verbatim>\<open>start_audio_playback\<close> (its
  line, its arguments and its local \<^verbatim>\<open>is_unpaused\<close>), the streaming task of the
  previous call if there was one, and the task this call spawns. A step of the system is
  a step of one of the three. \<^verbatim>\<open>no_audio_loaded.wait()\<close> at line 122 and
  \<^verbatim>\<open>is_playback_unpaused.wait()\<close> at line 141 have a step only when the event is
  set. Other callers of the player (a second controller, the key listener) are not part
  of the system: a call by one of them is its function applied to the shared player
  between two runs of the system.
\<close>

datatype main_pc = M117 | M119 | M120 | M122 | M124 | M126 | M129 | M130 | M181 | Returned

record system =
  shared :: player
  main :: main_pc
  arg_audio_path :: "string option"
  chunk_size :: nat
  is_unpaused :: bool
  old_stream :: "stream_pc option"
  old_chunk_size :: nat
  new_stream :: "stream_pc option"

definition main_succ :: "system \<Rightarrow> system list" where
  "main_succ s =
     (case main s of
        M117 \<Rightarrow> [s\<lparr>shared := (shared s)\<lparr>is_stopped := True\<rparr>, main := M119\<rparr>]
      | M119 \<Rightarrow> [s\<lparr>is_unpaused := is_playback_unpaused (shared s), main := M120\<rparr>]
      | M120 \<Rightarrow> [s\<lparr>shared := (shared s)\<lparr>is_playback_unpaused := True\<rparr>, main := M122\<rparr>]
      | M122 \<Rightarrow> (if no_audio_loaded (shared s) then [s\<lparr>main := M124\<rparr>] else [])
      | M124 \<Rightarrow>
          [s\<lparr>shared := (if \<not> is_unpaused s
                           then (shared s)\<lparr>is_playback_unpaused := False\<rparr>
                           else shared s),
              main := M126\<rparr>]
      | M126 \<Rightarrow>
          [s\<lparr>shared := (case arg_audio_path s of
                             Some path \<Rightarrow> (shared s)\<lparr>audio_path := Some path\<rparr>
                           | None \<Rightarrow> shared s),
              main := M129\<rparr>]
      | M129 \<Rightarrow> [s\<lparr>shared := (shared s)\<lparr>no_audio_loaded := False\<rparr>, main := M130\<rparr>]
      | M130 \<Rightarrow> [s\<lparr>shared := (shared s)\<lparr>is_stopped := False\<rparr>, main := M181\<rparr>]
      | M181 \<Rightarrow> [s\<lparr>new_stream := Some L134, main := Returned\<rparr>]
      | Returned \<Rightarrow> [])"

definition old_succ :: "world \<Rightarrow> system \<Rightarrow> system list" where
  "old_succ w s =
     (case old_stream s of
        None \<Rightarrow> []
      | Some l \<Rightarrow>
          map (\<lambda>(l', sh'). s\<lparr>old_stream := Some l', shared := sh'\<rparr>)
            (stream_succ w (old_chunk_size s) (l, shared s)))"

definition new_succ :: "world \<Rightarrow> system \<Rightarrow> system list" where
  "new_succ w s =
     (case new_stream s of
        None \<Rightarrow> []
      | Some l \<Rightarrow>
          map (\<lambda>(l', sh'). s\<lparr>new_stream := Some l', shared := sh'\<rparr>)
            (stream_succ w (chunk_size s) (l, shared s)))"

definition sys_succ :: "world \<Rightarrow> system \<Rightarrow> system list" where
  "sys_succ w s = main_succ s @ old_succ w s @ new_succ w s"

definition sys_step :: "world \<Rightarrow> system \<Rightarrow> system \<Rightarrow> bool" where
  "sys_step w s s' \<longleftrightarrow> s' \<in> set (sys_succ w s)"

definition sys_run :: "world \<Rightarrow> system \<Rightarrow> system \<Rightarrow> bool" where
  "sys_run w = (sys_step w)\<^sup>*\<^sup>*"

subsection \<open>States and measures of the swap\<close>

text \<open>\<open>has_vacated\<close>: the task has executed line 178, \<^verbatim>\<open>no_audio_loaded.set()\<close>.
  \<open>in_stream\<close>: its callbacks are running. \<open>path_installed\<close>: the player holds the
  path the controller was given, if it was given one. \<open>paused_with_active_stream\<close>: the
  controller is about to run line 117 while playback is paused and the previous task is
  in its stream. \<open>sys_measure\<close> counts the lines the three threads still have to run;
  a task about to test the stop event that is not set has a chunk and a wait before it.\<close>

fun has_vacated :: "stream_pc \<Rightarrow> bool" where
  "has_vacated (L179 x) = True"
| "has_vacated (Exited x) = True"
| "has_vacated l = False"

fun in_stream :: "stream_pc \<Rightarrow> bool" where
  "in_stream (L141 f) = True"
| "in_stream (L142 f) = True"
| "in_stream (L145 f) = True"
| "in_stream l = False"

definition path_installed :: "system \<Rightarrow> bool" where
  "path_installed s =
     (case arg_audio_path s of Some path \<Rightarrow> audio_path (shared s) = Some path | None \<Rightarrow> True)"

definition paused_with_active_stream :: "system \<Rightarrow> bool" where
  "paused_with_active_stream s \<longleftrightarrow>
     main s = M117 \<and> new_stream s = None
     \<and> \<not> is_playback_unpaused (shared s) \<and> \<not> no_audio_loaded (shared s)
     \<and> (\<exists>l. old_stream s = Some l \<and> in_stream l)"

fun main_rank :: "main_pc \<Rightarrow> nat" where
  "main_rank M117 = 9"
| "main_rank M119 = 8"
| "main_rank M120 = 7"
| "main_rank M122 = 6"
| "main_rank M124 = 5"
| "main_rank M126 = 4"
| "main_rank M129 = 3"
| "main_rank M130 = 2"
| "main_rank M181 = 1"
| "main_rank Returned = 0"

fun stream_rank :: "bool \<Rightarrow> stream_pc \<Rightarrow> nat" where
  "stream_rank stopped L134 = 14"
| "stream_rank stopped L135 = 13"
| "stream_rank stopped (L136 f) = 12"
| "stream_rank stopped (L165 f) = 11"
| "stream_rank stopped (L171 f) = 10"
| "stream_rank stopped (L142 f) = (if stopped then 6 else 9)"
| "stream_rank stopped (L145 f) = 8"
| "stream_rank stopped (L141 f) = 7"
| "stream_rank stopped L174 = 5"
| "stream_rank stopped (L177 bound x) = 4"
| "stream_rank stopped (L178 x) = 3"
| "stream_rank stopped (L179 x) = 2"
| "stream_rank stopped (Exited x) = 0"

definition sys_measure :: "system \<Rightarrow> nat" where
  "sys_measure s =
     main_rank (main s)
     + (case old_stream s of None \<Rightarrow> 0
        | Some l \<Rightarrow> stream_rank (is_stopped (shared s)) l)
     + (case new_stream s of None \<Rightarrow> 15
        | Some l \<Rightarrow> stream_rank (is_stopped (shared s)) l)"




section \<open>Invariants\<close>

text \<open>\<open>keeps s s'\<close>: the player \<open>s'\<close> is \<open>s\<close> but for the cursor and the display
  buffer. The invariant of a streaming task that runs alone from a player \<open>sh0\<close>:
  the path is the one it started with; the sample rate and the frame count are those it
  started with or those of the file at that path; \<^verbatim>\<open>p\<close> is assigned when the
  \<^verbatim>\<open>finally\<close> block is entered, and the block's stores are made in its order.\<close>

definition keeps :: "player \<Rightarrow> player \<Rightarrow> bool" where
  "keeps s s' \<longleftrightarrow> (\<exists>c d. s' = s\<lparr>current_frame := c, display_frame_data := d\<rparr>)"

definition same_or_header :: "world \<Rightarrow> player \<Rightarrow> player \<Rightarrow> bool" where
  "same_or_header w sh0 sh \<longleftrightarrow>
     (audio_frames sh = audio_frames sh0 \<and> audio_sample_rate sh = audio_sample_rate sh0)
     \<or> (\<exists>i. open_file w (audio_path sh0) = Inr i
            \<and> audio_frames sh = sf_frames i \<and> audio_sample_rate sh = sf_samplerate i)"

fun cleanup_done :: "stream_pc \<Rightarrow> player \<Rightarrow> bool" where
  "cleanup_done L134 sh = False"
| "cleanup_done (L177 bound x) sh = bound"
| "cleanup_done (L179 x) sh = no_audio_loaded sh"
| "cleanup_done (Exited x) sh = (no_audio_loaded sh \<and> current_frame sh = 0)"
| "cleanup_done l sh = True"

definition stream_inv :: "world \<Rightarrow> player \<Rightarrow> stream_pc \<times> player \<Rightarrow> bool" where
  "stream_inv w sh0 c \<longleftrightarrow>
     audio_path (snd c) = audio_path sh0 \<and> same_or_header w sh0 (snd c)
     \<and> cleanup_done (fst c) (snd c)"

text \<open>The invariant of a swap that starts paused, as an assertion for every line of the
  controller: which events are set, whether the previous task has vacated, and that the
  new task, once spawned, has not passed its first wait. \<open>exited_at_zero\<close>: a previous
  task that has exited has left the cursor at 0.\<close>

fun old_ok :: "stream_pc \<Rightarrow> bool" where
  "old_ok (L141 f) = True"
| "old_ok (L142 f) = True"
| "old_ok (L145 f) = True"
| "old_ok L174 = True"
| "old_ok (L177 bound x) = bound"
| "old_ok (L178 x) = True"
| "old_ok (L179 x) = True"
| "old_ok (Exited x) = True"
| "old_ok l = False"

fun new_waiting :: "stream_pc \<Rightarrow> bool" where
  "new_waiting (L142 f) = False"
| "new_waiting (L145 f) = False"
| "new_waiting L174 = False"
| "new_waiting l = True"

fun exited_at_zero :: "stream_pc \<Rightarrow> player \<Rightarrow> bool" where
  "exited_at_zero (Exited x) sh = (current_frame sh = 0)"
| "exited_at_zero l sh = True"

fun swap_assert :: "main_pc \<Rightarrow> bool \<Rightarrow> bool \<Rightarrow> bool \<Rightarrow> bool \<Rightarrow> bool \<Rightarrow> bool \<Rightarrow> bool" where
  "swap_assert M117 stopped unpaused saved loaded_none vacated installed =
     (\<not> unpaused \<and> (loaded_none \<longleftrightarrow> vacated))"
| "swap_assert M119 stopped unpaused saved loaded_none vacated installed =
     (stopped \<and> \<not> unpaused \<and> (loaded_none \<longleftrightarrow> vacated))"
| "swap_assert M120 stopped unpaused saved loaded_none vacated installed =
     (stopped \<and> \<not> unpaused \<and> \<not> saved \<and> (loaded_none \<longleftrightarrow> vacated))"
| "swap_assert M122 stopped unpaused saved loaded_none vacated installed =
     (stopped \<and> unpaused \<and> \<not> saved \<and> (loaded_none \<longleftrightarrow> vacated))"
| "swap_assert M124 stopped unpaused saved loaded_none vacated installed =
     (stopped \<and> unpaused \<and> \<not> saved \<and> loaded_none \<and> vacated)"
| "swap_assert M126 stopped unpaused saved loaded_none vacated installed =
     (stopped \<and> \<not> unpaused \<and> loaded_none \<and> vacated)"
| "swap_assert M129 stopped unpaused saved loaded_none vacated installed =
     (stopped \<and> \<not> unpaused \<and> loaded_none \<and> vacated \<and> installed)"
| "swap_assert M130 stopped unpaused saved loaded_none vacated installed =
     (stopped \<and> \<not> unpaused \<and> \<not> loaded_none \<and> vacated \<and> installed)"
| "swap_assert M181 stopped unpaused saved loaded_none vacated installed =
     (\<not> stopped \<and> \<not> unpaused \<and> \<not> loaded_none \<and> vacated \<and> installed)"
| "swap_assert Returned stopped unpaused saved loaded_none vacated installed =
     (\<not> stopped \<and> \<not> unpaused \<and> vacated \<and> installed)"

fun new_assert :: "main_pc \<Rightarrow> stream_pc option \<Rightarrow> bool" where
  "new_assert Returned l = (case l of None \<Rightarrow> False | Some l' \<Rightarrow> new_waiting l')"
| "new_assert m l = (l = None)"

definition paused_swap_inv :: "system \<Rightarrow> bool" where
  "paused_swap_inv s \<longleftrightarrow>
     (\<exists>l. old_stream s = Some l \<and> old_ok l \<and> exited_at_zero l (shared s)
        \<and> swap_assert (main s) (is_stopped (shared s)) (is_playback_unpaused (shared s))
             (is_unpaused s) (no_audio_loaded (shared s)) (has_vacated l) (path_installed s))
     \<and> new_assert (main s) (new_stream s)"





section \<open>Example inputs\<close>

text \<open>A player with volume one half on which a file of two frames has been loaded, that
  file, a meter that measures -20 on every chunk, and a meter that raises on an empty
  chunk; \<open>demo_target\<close> is the target loudness of the chunk \<open>[1/2, 0]\<close> at -20,
  whose amplitudes have the deviation 1/4.\<close>

definition demo_player :: player where
  "demo_player = (AudioPlayer_with_volume (1 / 2))\<lparr>audio_frames := 2, audio_sample_rate := 44100\<rparr>"

definition demo_file :: soundfile where
  "demo_file = list_file 44100 [1 / 2, 0]"

definition demo_meter :: meter where
  "demo_meter = (\<lambda>rate block_size data. Inr (- 20))"


definition demo_target :: real where
  "demo_target =
     min (loudness_point_target_loudness (- 20)
          * (std_compression_max
             + (1 - std_compression_max)
               * ((1 / 4) / expected_std_max) powr std_compression_factor)) 0"

text \<open>A player made by \<^verbatim>\<open>AudioPlayer(volume=5)\<close> on which the two-frame file has
  been loaded.\<close>

definition loud_player :: player where
  "loud_player = (AudioPlayer_with_volume 5)\<lparr>audio_frames := 2, audio_sample_rate := 44100\<rparr>"

text \<open>A world holding the two-frame file under the name \<open>a.wav\<close> and a file of
  three frames under \<open>b.wav\<close>; the player
  after \<^verbatim>\<open>start_audio_playback('a.wav')\<close> on a fresh object, as the new task finds
  it; and the same player once the task has stored the file's header.\<close>

definition second_file :: soundfile where
  "second_file = list_file 48000 [1 / 4, 1 / 4, 1 / 4]"

definition demo_world :: world where
  "demo_world =
     \<lparr> open_file = (\<lambda>path. case path of
                        None \<Rightarrow> Inl TypeError
                      | Some name \<Rightarrow> if name = ''a.wav'' then Inr demo_file
                                     else if name = ''b.wav'' then Inr second_file
                                     else Inl LibsndfileError),
       loudness_meter = demo_meter \<rparr>"

definition started_player :: player where
  "started_player =
     (AudioPlayer_with_volume 1)\<lparr>audio_path := Some ''a.wav'', no_audio_loaded := False\<rparr>"

definition playing_player :: player where
  "playing_player = started_player\<lparr>audio_sample_rate := 44100, audio_frames := 2\<rparr>"

text \<open>The system of a call \<^verbatim>\<open>start_audio_playback('b.wav', 2)\<close>, and the player
  paused after the first chunk of \<open>a.wav\<close>.\<close>

definition swap_system :: "player \<Rightarrow> main_pc \<Rightarrow> stream_pc \<Rightarrow> stream_pc option \<Rightarrow> system" where
  "swap_system sh m old new =
     \<lparr> shared = sh, main = m, arg_audio_path = Some ''b.wav'', chunk_size = 2,
       is_unpaused = False, old_stream = Some old, old_chunk_size = 2, new_stream = new \<rparr>"

definition paused_player :: player where
  "paused_player = playing_player\<lparr>is_playback_unpaused := False, current_frame := 2\<rparr>"

text \<open>The player when that call returns, and when the swap has settled.\<close>

definition swapped_player :: player where
  "swapped_player = paused_player\<lparr>audio_path := Some ''b.wav''\<rparr>"

definition settled_player :: player where
  "settled_player =
     swapped_player\<lparr>current_frame := 0, audio_sample_rate := 48000, audio_frames := 3\<rparr>"

text \<open>The player paused while the first callback on \<open>a.wav\<close> is past its wait
  (line 145); the same while the call \<^verbatim>\<open>start_audio_playback('b.wav', 2)\<close> waits
  at line 122 (the stop event set, the unpaused event forced); and after another
  thread has called \<^verbatim>\<open>pause_audio\<close> and the callback has finished its chunk.\<close>

definition midchunk_player :: player where
  "midchunk_player = playing_player\<lparr>is_playback_unpaused := False\<rparr>"

definition waiting_player :: player where
  "waiting_player = midchunk_player\<lparr>is_stopped := True, is_playback_unpaused := True\<rparr>"

definition blocked_player :: player where
  "blocked_player = (pause_audio waiting_player)\<lparr>current_frame := 2\<rparr>"






section \<open>Properties of the controls\<close>

lemma run_pause_op_unloaded: "audio_frames s = 0 \<Longrightarrow> run_pause_op c s = s"
  by (cases c) (simp_all add: pause_audio_def unpause_audio_def toggle_pause_def)

text \<open>
  Claim C9. With no file loaded (\<open>audio_frames = 0\<close>) every sequence of
  \<open>pause_audio\<close>, \<open>unpause_audio\<close> and \<open>toggle_pause\<close> calls leaves the player, and
  so the unpaused signal, as it was; and in any state, pausing twice is pausing once.
\<close>

theorem pause_ops_noop_and_idempotent:
  "(audio_frames s = 0 \<longrightarrow>
      run_pause_ops cs s = s \<and>
      is_playback_unpaused (run_pause_ops cs s) = is_playback_unpaused s)
   \<and> pause_audio (pause_audio t) = pause_audio t"
proof -
  have "audio_frames s = 0 \<Longrightarrow> run_pause_ops cs s = s"
    by (induction cs) (simp_all add: run_pause_op_unloaded)
  moreover have "pause_audio (pause_audio t) = pause_audio t"
    by (simp add: pause_audio_def)
  ultimately show ?thesis by simp
qed

theorem pause_ops_noop_and_idempotent_witness:
  "audio_frames (AudioPlayer_with_volume 1) = 0
   \<and> run_pause_ops [Pause, Unpause, Toggle] (AudioPlayer_with_volume 1)
       = AudioPlayer_with_volume 1
   \<and> is_playback_unpaused
        (run_pause_ops [Pause, Unpause, Toggle] (AudioPlayer_with_volume 1))
   \<and> pause_audio (pause_audio ((AudioPlayer_with_volume 1)\<lparr>audio_frames := 10\<rparr>))
       = (AudioPlayer_with_volume 1)\<lparr>audio_frames := 10, is_playback_unpaused := False\<rparr>"
proof -
  have h: "audio_frames (AudioPlayer_with_volume 1) = 0"
    by (simp add: AudioPlayer_with_volume_def AudioPlayer_init_def)
  have u: "is_playback_unpaused (AudioPlayer_with_volume 1)"
    by (simp add: AudioPlayer_with_volume_def AudioPlayer_init_def)
  have p: "pause_audio ((AudioPlayer_with_volume 1)\<lparr>audio_frames := 10\<rparr>)
       = (AudioPlayer_with_volume 1)\<lparr>audio_frames := 10, is_playback_unpaused := False\<rparr>"
    by (simp add: pause_audio_def)
  show ?thesis
    using pause_ops_noop_and_idempotent
      [of "AudioPlayer_with_volume 1" "[Pause, Unpause, Toggle]"
          "(AudioPlayer_with_volume 1)\<lparr>audio_frames := 10\<rparr>"] h u p
    by simp
qed

text \<open>The volume: \<open>set_volume\<close> clamps whatever it is given.\<close>

lemma set_volume_clamps:
  "0 \<le> volume (set_volume v s) \<and> volume (set_volume v s) \<le> 1"
  by (simp add: set_volume_def)

lemma set_volume_examples:
  "volume (set_volume (- 1) s) = 0 \<and> volume (set_volume 5 s) = 1"
  by (simp add: set_volume_def)

text \<open>
  Claim C7. The stored volume is to lie in \<open>[0, 1]\<close> on every path, construction
  included. \<open>set_volume\<close> clamps (lemmas above), but the constructor stores its
  argument as given: \<^verbatim>\<open>AudioPlayer(volume=5)\<close> holds the volume 5, outside the
  range the class's own docstring gives the attribute.
\<close>

theorem init_volume_not_clamped:
  "volume (AudioPlayer_with_volume 5) = 5
   \<and> \<not> volume (AudioPlayer_with_volume 5) \<le> 1
   \<and> volume (set_volume 5 (AudioPlayer_with_volume 5)) = 1"
  by (simp add: AudioPlayer_with_volume_def AudioPlayer_init_def set_volume_def)

subsection \<open>The cursor\<close>

lemma py_int_bounds: "0 \<le> x \<Longrightarrow> x \<le> of_int n \<Longrightarrow> 0 \<le> py_int x \<and> py_int x \<le> n"
  by (simp add: py_int_def floor_le_iff le_floor_iff)

lemma callback_locked_advance:
  "sf_seek file (current_frame s) = None \<Longrightarrow>
   current_frame (fst (callback_locked m file frame_count s)) = current_frame s + int frame_count"
  by (simp add: callback_locked_def update_display_def Let_def
      split: option.splits sum.splits normalized.splits if_splits)

lemma callback_locked_seek_raises:
  "sf_seek file (current_frame s) = Some e \<Longrightarrow> callback_locked m file frame_count s = (s, Inl e)"
  by (simp add: callback_locked_def)

text \<open>
  Claim C2, as the code has it. \<open>seek\<close> stores the truncated position as it is, with no
  clamp: the cursor is inside \<open>[0, audio_frames]\<close> after a seek when the requested
  position is (a fraction in \<open>[0, 1]\<close>, or a frame in \<open>[0, audio_frames]\<close>). The
  callback adds \<open>frame_count\<close> to the cursor whenever the file's seek succeeds, whatever
  the read returns: the cursor stays inside the file only while
  \<open>current_frame + frame_count \<le> audio_frames\<close>.
\<close>

theorem seek_and_advance_unclamped:
  "(0 < audio_frames s \<longrightarrow>
      current_frame (seek position True s) = py_int (of_int (audio_frames s) * position)
    \<and> current_frame (seek position False s) = py_int position
    \<and> audio_frames (seek position percentage s) = audio_frames s
    \<and> (0 \<le> position \<and> position \<le> 1 \<longrightarrow>
          0 \<le> current_frame (seek position True s)
        \<and> current_frame (seek position True s) \<le> audio_frames s)
    \<and> (0 \<le> position \<and> position \<le> of_int (audio_frames s) \<longrightarrow>
          0 \<le> current_frame (seek position False s)
        \<and> current_frame (seek position False s) \<le> audio_frames s))
   \<and> (audio_frames s \<le> 0 \<longrightarrow> seek position percentage s = s)
   \<and> (sf_seek file (current_frame s) = None \<longrightarrow>
        current_frame (fst (callback_locked m file frame_count s))
          = current_frame s + int frame_count
      \<and> (current_frame (fst (callback_locked m file frame_count s)) \<le> audio_frames s
           \<longleftrightarrow> current_frame s + int frame_count \<le> audio_frames s))"
proof -
  have a: "0 < audio_frames s \<Longrightarrow> 0 \<le> position \<Longrightarrow> position \<le> 1 \<Longrightarrow>
      0 \<le> py_int (of_int (audio_frames s) * position)
      \<and> py_int (of_int (audio_frames s) * position) \<le> audio_frames s"
  proof -
    assume h: "0 < audio_frames s" "0 \<le> position" "position \<le> 1"
    have "0 \<le> real_of_int (audio_frames s) * position" using h by simp
    moreover have "real_of_int (audio_frames s) * position \<le> real_of_int (audio_frames s)"
      using h by (simp add: mult_left_le)
    ultimately show ?thesis by (rule py_int_bounds)
  qed
  have b: "0 \<le> position \<Longrightarrow> position \<le> of_int (audio_frames s) \<Longrightarrow>
      0 \<le> py_int position \<and> py_int position \<le> audio_frames s"
    by (rule py_int_bounds)
  have c: "sf_seek file (current_frame s) = None \<Longrightarrow>
      current_frame (fst (callback_locked m file frame_count s))
        = current_frame s + int frame_count"
    by (rule callback_locked_advance)
  show ?thesis using a b c by (simp add: seek_def)
qed

text \<open>The claim's own example, and a last chunk: a seek to frame 1500 of a file of
  1000 frames stores 1500; a callback for 1024 frames at the start of a file of 1000
  frames leaves the cursor at 1024.\<close>

theorem seek_past_end_not_clamped:
  "current_frame (seek 1500 False ((AudioPlayer_with_volume 1)\<lparr>audio_frames := 1000\<rparr>)) = 1500
   \<and> \<not> current_frame (seek 1500 False ((AudioPlayer_with_volume 1)\<lparr>audio_frames := 1000\<rparr>))
        \<le> audio_frames (seek 1500 False ((AudioPlayer_with_volume 1)\<lparr>audio_frames := 1000\<rparr>))"
  by (simp add: seek_def py_int_def)

theorem seek_and_advance_unclamped_witness:
  "current_frame (seek (1 / 2) True ((AudioPlayer_with_volume 1)\<lparr>audio_frames := 1000\<rparr>)) = 500
   \<and> current_frame (seek 1500 False ((AudioPlayer_with_volume 1)\<lparr>audio_frames := 1000\<rparr>)) = 1500
   \<and> current_frame (seek 250 False ((AudioPlayer_with_volume 1)\<lparr>audio_frames := 1000\<rparr>)) \<le> 1000
   \<and> seek (1 / 2) True (AudioPlayer_with_volume 1) = AudioPlayer_with_volume 1
   \<and> current_frame (fst (callback_locked (\<lambda>r b d. Inr (- 20))
        (list_file 44100 (replicate 1000 (1 / 2))) 1024
        ((AudioPlayer_with_volume 1)\<lparr>audio_frames := 1000, audio_sample_rate := 44100\<rparr>))) = 1024"
proof -
  let ?s = "(AudioPlayer_with_volume 1)\<lparr>audio_frames := 1000\<rparr>"
  let ?t = "(AudioPlayer_with_volume 1)\<lparr>audio_frames := 1000, audio_sample_rate := 44100\<rparr>"
  let ?f = "list_file 44100 (replicate 1000 (1 / 2))"
  have s0: "audio_frames ?s = 1000" "audio_frames (AudioPlayer_with_volume 1) = 0"
    by (simp_all add: AudioPlayer_with_volume_def AudioPlayer_init_def)
  have t0: "current_frame ?t = 0" "sf_seek ?f 0 = None"
    by (simp_all add: AudioPlayer_with_volume_def AudioPlayer_init_def list_file_def)
  have p: "py_int (1000 * (1 / 2)) = 500" "py_int 1500 = 1500" "py_int 250 = 250"
    by (simp_all add: py_int_def)
  have 1: "current_frame (seek (1 / 2) True ?s) = 500"
    using seek_and_advance_unclamped [of ?s "1 / 2" True ?f _ 0] s0 p by simp
  have 2: "current_frame (seek 1500 False ?s) = 1500"
    using seek_and_advance_unclamped [of ?s 1500 False ?f _ 0] s0 p by simp
  have 3: "current_frame (seek 250 False ?s) \<le> 1000"
    using seek_and_advance_unclamped [of ?s 250 False ?f _ 0] s0 p by simp
  have 4: "seek (1 / 2) True (AudioPlayer_with_volume 1) = AudioPlayer_with_volume 1"
    using seek_and_advance_unclamped [of "AudioPlayer_with_volume 1" "1 / 2" True ?f _ 0] s0
    by simp
  have 5: "current_frame (fst (callback_locked (\<lambda>r b d. Inr (- 20)) ?f 1024 ?t)) = 1024"
    using seek_and_advance_unclamped [of ?t 0 True ?f "\<lambda>r b d. Inr (- 20)" 1024] t0 by simp
  show ?thesis using 1 2 3 4 5 by simp
qed

section \<open>Properties of the normaliser\<close>

lemmas loudness_defaults =
  input_range_def target_dynamic_range_def loudness_compression_factor_def
  loudness_upper_limit_def std_compression_max_def std_compression_factor_def
  expected_std_max_def

lemma np_std_nonneg: "np_std xs = Some sd \<Longrightarrow> 0 \<le> sd"
  by (auto simp: np_std_def np_mean_def sum_list_nonneg split: if_splits
      intro!: divide_nonneg_nonneg sum_list_nonneg)

lemma loudness_point_range:
  "- input_range \<le> loudness_point measured \<and> loudness_point measured \<le> 0"
  by (simp add: loudness_point_def input_range_def)

lemma loudness_point_cases:
  "(measured < - input_range \<longrightarrow> loudness_point measured = - input_range)
   \<and> (- input_range \<le> measured \<and> measured \<le> 0 \<longrightarrow> loudness_point measured = measured)
   \<and> (0 < measured \<longrightarrow> loudness_point measured = 0)"
  by (simp add: loudness_point_def input_range_def)

lemma loudness_point_target_loudness_value:
  "loudness_point_target_loudness measured = 40 * (loudness_point measured + 70) / 69 - 50"
proof -
  have "0 \<le> loudness_point measured + 70"
    using loudness_point_range [of measured] by (simp add: input_range_def)
  then have "(loudness_point measured + 70) powr 1 = loudness_point measured + 70"
    by (rule powr_one)
  then show ?thesis
    by (simp add: loudness_point_target_loudness_def loudness_defaults powr_neg_one)
qed

lemma std_multiplier_form:
  assumes "np_std (map abs data) = Some sd"
  shows "audio_std_target_loudness data =
     Some (std_compression_max
           + (1 - std_compression_max) * (sd / expected_std_max) powr std_compression_factor)"
proof -
  have "(sd / expected_std_max) powr std_compression_factor
      = sd powr std_compression_factor * expected_std_max powr (- std_compression_factor)"
    by (simp add: powr_divide powr_minus_divide)
  then show ?thesis using assms by (simp add: audio_std_target_loudness_def)
qed

lemma std_multiplier_lower:
  assumes "0 \<le> sd"
  shows "std_compression_max
     \<le> std_compression_max
         + (1 - std_compression_max) * (sd / expected_std_max) powr std_compression_factor"
proof -
  have "0 \<le> (1 - std_compression_max) * (sd / expected_std_max) powr std_compression_factor"
    by (simp add: std_compression_max_def)
  then show ?thesis by simp
qed

lemma std_multiplier_upper:
  assumes "0 \<le> sd" "sd \<le> expected_std_max"
  shows "std_compression_max
         + (1 - std_compression_max) * (sd / expected_std_max) powr std_compression_factor \<le> 1"
proof -
  have e: "0 < expected_std_max" by (simp add: expected_std_max_def)
  have "\<bar>sd / expected_std_max\<bar> \<le> 1" using assms e by simp
  then have "(sd / expected_std_max) powr std_compression_factor \<le> 1"
    by (intro powr_le1) (use assms e in \<open>auto simp: std_compression_factor_def\<close>)
  then have "(1 - std_compression_max) * (sd / expected_std_max) powr std_compression_factor
      \<le> (1 - std_compression_max) * 1"
    by (intro mult_left_mono) (auto simp: std_compression_max_def)
  then show ?thesis by simp
qed

lemma std_multiplier_above:
  assumes "expected_std_max < sd"
  shows "1 < std_compression_max
         + (1 - std_compression_max) * (sd / expected_std_max) powr std_compression_factor"
proof -
  have e: "0 < expected_std_max" by (simp add: expected_std_max_def)
  have "1 < sd / expected_std_max" using assms e by simp
  then have "1 < (sd / expected_std_max) powr std_compression_factor"
    by (intro gr_one_powr) (auto simp: std_compression_factor_def)
  then have "(1 - std_compression_max) * 1
      < (1 - std_compression_max) * (sd / expected_std_max) powr std_compression_factor"
    by (intro mult_strict_left_mono) (auto simp: std_compression_max_def)
  then show ?thesis by simp
qed

lemma np_mean_bounds:
  assumes "xs \<noteq> []" "\<forall>x\<in>set xs. a \<le> x \<and> x \<le> b"
  shows "a \<le> np_mean xs \<and> np_mean xs \<le> b"
proof -
  have n: "0 < real (length xs)" using assms by simp
  have "sum_list (map (\<lambda>x. a) xs) \<le> sum_list (map (\<lambda>x. x) xs)"
    using assms by (intro sum_list_mono) auto
  then have lo: "real (length xs) * a \<le> sum_list xs" by (simp add: sum_list_triv)
  have "sum_list (map (\<lambda>x. x) xs) \<le> sum_list (map (\<lambda>x. b) xs)"
    using assms by (intro sum_list_mono) auto
  then have hi: "sum_list xs \<le> real (length xs) * b" by (simp add: sum_list_triv)
  show ?thesis using n lo hi by (simp add: np_mean_def field_simps)
qed

lemma std_unit:
  assumes "\<forall>x\<in>set xs. \<bar>x\<bar> \<le> 1" "np_std (map abs xs) = Some sd"
  shows "sd \<le> 1"
proof -
  let ?ys = "map abs xs"
  have ne: "?ys \<noteq> []" using assms by (auto simp: np_std_def split: if_splits)
  have r: "\<forall>y\<in>set ?ys. 0 \<le> y \<and> y \<le> 1" using assms by auto
  have mu: "0 \<le> np_mean ?ys \<and> np_mean ?ys \<le> 1" by (rule np_mean_bounds [OF ne r])
  let ?ds = "map (\<lambda>x. (x - np_mean ?ys)\<^sup>2) ?ys"
  have "\<forall>d\<in>set ?ds. 0 \<le> d \<and> d \<le> 1"
  proof
    fix d assume "d \<in> set ?ds"
    then obtain y where y: "y \<in> set ?ys" "d = (y - np_mean ?ys)\<^sup>2" by auto
    have "\<bar>y - np_mean ?ys\<bar> \<le> 1" using r y mu by (auto simp: abs_le_iff)
    then have "(y - np_mean ?ys)\<^sup>2 \<le> 1" by (simp add: abs_square_le_1)
    then show "0 \<le> d \<and> d \<le> 1" using y by simp
  qed
  moreover have "?ds \<noteq> []" using ne by simp
  ultimately have "np_mean ?ds \<le> 1" using np_mean_bounds by blast
  then have le: "sqrt (np_mean ?ds) \<le> 1" by simp
  have "np_std ?ys = Some (sqrt (np_mean ?ds))" using ne unfolding np_std_def by simp
  then have "sd = sqrt (np_mean ?ds)" using assms(2) by simp
  then show ?thesis using le by simp
qed

lemma find_target_loudness_value:
  assumes "rate \<noteq> 0" "m rate (real (length data) / of_int rate) data = Inr measured"
    "audio_std_target_loudness data = Some mult"
  shows "find_target_loudness m rate data =
      Inr (Some (min (loudness_point_target_loudness measured * mult) 0))"
  using assms by (simp add: find_target_loudness_def)

lemma find_target_loudness_Some:
  assumes "find_target_loudness m rate data = Inr (Some t)"
  shows "data \<noteq> [] \<and> t \<le> 0"
  using assms
  by (auto simp: find_target_loudness_def audio_std_target_loudness_def np_std_def
      split: if_splits sum.splits option.splits)

lemma find_target_loudness_None:
  "find_target_loudness m rate data = Inr None \<Longrightarrow> data = []"
  by (auto simp: find_target_loudness_def audio_std_target_loudness_def np_std_def
      split: if_splits sum.splits option.splits)

text \<open>
  Claim C5, as the code has it, at the parameters the player uses (the defaults). For
  a chunk with frames on which the meter returns, \<open>sd\<close> being the deviation of its
  amplitudes: the measured loudness is clamped into \<open>[-input_range, 0]\<close>, that is
  \<open>[-70, 0]\<close>; the deviation multiplier is the power law of line 102, at least
  \<open>std_compression_max\<close>; it is at most 1 when \<open>sd\<close> does not exceed
  \<open>expected_std_max\<close>, so for every chunk whose samples lie in \<open>[-1, 1]\<close>, and
  above 1 when \<open>sd\<close> exceeds it; the result is
  \<open>min (loudness target * multiplier) 0\<close>, never positive.
\<close>

theorem find_target_loudness_ranges:
  assumes "rate \<noteq> 0" "m rate (real (length data) / of_int rate) data = Inr measured"
    "np_std (map abs data) = Some sd"
  shows "\<exists>mult. audio_std_target_loudness data = Some mult
    \<and> mult = std_compression_max
             + (1 - std_compression_max) * (sd / expected_std_max) powr std_compression_factor
    \<and> loudness_point measured = max (min measured 0) (- input_range)
    \<and> - input_range \<le> loudness_point measured \<and> loudness_point measured \<le> 0
    \<and> std_compression_max \<le> mult
    \<and> (sd \<le> expected_std_max \<longrightarrow> mult \<le> 1)
    \<and> ((\<forall>x\<in>set data. \<bar>x\<bar> \<le> 1) \<longrightarrow> mult \<le> 1)
    \<and> (expected_std_max < sd \<longrightarrow> 1 < mult)
    \<and> find_target_loudness m rate data =
        Inr (Some (min (loudness_point_target_loudness measured * mult) 0))
    \<and> loudness_point_target_loudness measured = 40 * (loudness_point measured + 70) / 69 - 50
    \<and> min (loudness_point_target_loudness measured * mult) 0 \<le> 0
    \<and> input_range = 70 \<and> std_compression_max = 975 / 1000
    \<and> std_compression_factor = 8 / 10 \<and> expected_std_max = 35 / 10"
proof -
  let ?mult = "std_compression_max
             + (1 - std_compression_max) * (sd / expected_std_max) powr std_compression_factor"
  have sd: "0 \<le> sd" using assms(3) by (rule np_std_nonneg)
  have 0: "audio_std_target_loudness data = Some ?mult"
    using assms(3) by (rule std_multiplier_form)
  have 1: "- input_range \<le> loudness_point measured \<and> loudness_point measured \<le> 0"
    by (rule loudness_point_range)
  have 2: "std_compression_max \<le> ?mult" using sd by (rule std_multiplier_lower)
  have 3: "sd \<le> expected_std_max \<Longrightarrow> ?mult \<le> 1"
    using sd by (rule std_multiplier_upper)
  have 4: "(\<forall>x\<in>set data. \<bar>x\<bar> \<le> 1) \<Longrightarrow> ?mult \<le> 1"
  proof -
    assume a: "\<forall>x\<in>set data. \<bar>x\<bar> \<le> 1"
    have "sd \<le> 1" using a assms(3) by (rule std_unit)
    then have "sd \<le> expected_std_max" by (simp add: expected_std_max_def)
    then show ?thesis by (rule 3)
  qed
  have 5: "expected_std_max < sd \<Longrightarrow> 1 < ?mult" by (rule std_multiplier_above)
  have 6: "find_target_loudness m rate data =
        Inr (Some (min (loudness_point_target_loudness measured * ?mult) 0))"
    using assms(1,2) 0 by (rule find_target_loudness_value)
  have 7: "loudness_point_target_loudness measured
      = 40 * (loudness_point measured + 70) / 69 - 50"
    by (rule loudness_point_target_loudness_value)
  have 8: "loudness_point measured = max (min measured 0) (- input_range)"
    by (simp add: loudness_point_def)
  have 9: "input_range = 70 \<and> std_compression_max = 975 / 1000
    \<and> std_compression_factor = 8 / 10 \<and> expected_std_max = 35 / 10"
    by (simp add: loudness_defaults)
  show ?thesis
    apply (rule exI [of _ ?mult])
    using 0 1 2 3 4 5 6 7 8 9 apply simp
    done
qed

lemma std_quarter: "np_std (map abs [1 / 2, 0]) = Some (1 / 4)"
  by (simp add: np_std_def np_mean_def power2_eq_square real_sqrt_divide)

text \<open>The theorem at the chunk \<open>[1/2, 0]\<close>, measured at -20.\<close>

theorem find_target_loudness_ranges_witness:
  "np_std (map abs [1 / 2, 0]) = Some (1 / 4)
   \<and> loudness_point (- 20) = - 20
   \<and> (\<exists>mult. audio_std_target_loudness [1 / 2, 0] = Some mult
        \<and> 975 / 1000 \<le> mult \<and> mult \<le> 1
        \<and> find_target_loudness (\<lambda>r b d. Inr (- 20)) 44100 [1 / 2, 0] =
            Inr (Some (min (loudness_point_target_loudness (- 20) * mult) 0)))"
proof -
  have sd: "np_std (map abs [1 / 2, 0]) = Some (1 / 4)" by (rule std_quarter)
  have m: "(\<lambda>r b d. Inr (- 20)) (44100::int) (real (length [1 / 2, 0::real]) / of_int 44100)
      [1 / 2, 0::real] = (Inr (- 20) :: pyerr + real)" by simp
  have r: "(44100::int) \<noteq> 0" by simp
  from find_target_loudness_ranges [OF r m sd] obtain mult where
    t: "audio_std_target_loudness [1 / 2, 0] = Some mult"
       "loudness_point (- 20) = max (min (- 20) 0) (- input_range)"
       "std_compression_max \<le> mult" "1 / 4 \<le> expected_std_max \<longrightarrow> mult \<le> 1"
       "find_target_loudness (\<lambda>r b d. Inr (- 20)) 44100 [1 / 2, 0] =
            Inr (Some (min (loudness_point_target_loudness (- 20) * mult) 0))"
       "input_range = 70" "std_compression_max = 975 / 1000" "expected_std_max = 35 / 10"
    by blast
  have a: "loudness_point (- 20) = - 20" using t(2,6) by simp
  have b: "975 / 1000 \<le> mult \<and> mult \<le> 1" using t(3,4,7,8) by simp
  show ?thesis using sd a b t(1,5) by blast
qed

text \<open>Nothing bounds the deviation by \<open>expected_std_max\<close>: the chunk \<open>[0, 10]\<close>
  (a float file may hold samples beyond full scale) has deviation 5, above 3.5, and the
  multiplier computed for it exceeds 1.\<close>

theorem std_multiplier_above_one:
  "np_std (map abs [0, 10]) = Some 5
   \<and> (\<exists>mult. audio_std_target_loudness [0, 10] = Some mult
        \<and> \<not> mult \<le> 1
        \<and> find_target_loudness (\<lambda>r b d. Inr (- 20)) 44100 [0, 10] =
            Inr (Some (min (loudness_point_target_loudness (- 20) * mult) 0)))"
proof -
  let ?mult = "std_compression_max
             + (1 - std_compression_max) * (5 / expected_std_max) powr std_compression_factor"
  have sd: "np_std (map abs [0, 10]) = Some 5" by (simp add: np_std_def np_mean_def)
  have a: "audio_std_target_loudness [0, 10] = Some ?mult"
    using sd by (rule std_multiplier_form)
  have f: "find_target_loudness (\<lambda>r b d. Inr (- 20)) 44100 [0, 10] =
        Inr (Some (min (loudness_point_target_loudness (- 20) * ?mult) 0))"
    by (rule find_target_loudness_value [OF _ _ a]) simp_all
  have "1 < ?mult" by (rule std_multiplier_above) (simp add: expected_std_max_def)
  then have "\<not> ?mult \<le> 1" by simp
  then show ?thesis using sd a f by blast
qed

lemma current_peak_ge: "x \<in> set data \<Longrightarrow> \<bar>x\<bar> \<le> current_peak data"
  by (simp add: current_peak_def)

lemma zero_to_eps_nonzero: "x \<in> set (zero_to_eps raw) \<Longrightarrow> x \<noteq> 0"
  by (auto simp: zero_to_eps_def)

lemma zero_to_eps_empty [simp]: "zero_to_eps raw = [] \<longleftrightarrow> raw = []"
  by (simp add: zero_to_eps_def)

lemma length_zero_to_eps [simp]: "length (zero_to_eps raw) = length raw"
  by (simp add: zero_to_eps_def)

lemma current_peak_pos:
  assumes "raw \<noteq> []" shows "0 < current_peak (zero_to_eps raw)"
proof -
  obtain x where x: "x \<in> set (zero_to_eps raw)" using assms by (cases "zero_to_eps raw") auto
  then have "0 < \<bar>x\<bar>" using zero_to_eps_nonzero by auto
  then show ?thesis using current_peak_ge [OF x] by linarith
qed

lemma map2_same: "map2 f (map g xs) xs = map (\<lambda>x. f (g x) x) xs"
  by (induction xs) auto

lemma normalize_blend_eps:
  assumes "raw \<noteq> []"
  shows "normalize_blend (zero_to_eps raw) t =
     Inr (Samples (map (\<lambda>x. peak_scale t / current_peak (zero_to_eps raw) * x * (9 / 10) + (1 / 10) * x)
            (zero_to_eps raw)))"
  using assms current_peak_pos [OF assms]
  by (simp add: normalize_blend_def pyln_normalize_peak_def map2_same)

text \<open>The peak normalisation brings the largest magnitude of the chunk to
  \<open>10 ** (target / 20)\<close>.\<close>

lemma current_peak_scaled:
  assumes "data \<noteq> []" "0 \<le> g"
  shows "current_peak (map (\<lambda>x. g * x) data) = g * current_peak data"
proof -
  let ?S = "set (map abs data)"
  have fin: "finite ?S" "?S \<noteq> {}" using assms(1) by simp_all
  have "Max ?S \<in> ?S" using fin by (rule Max_in)
  then obtain x where x: "x \<in> set data" "\<bar>x\<bar> = Max ?S" by auto
  have e: "set (map abs (map (\<lambda>x. g * x) data)) = (\<lambda>x. g * \<bar>x\<bar>) ` set data"
    using assms(2) by (auto simp: abs_mult image_iff)
  have "Max ((\<lambda>x. g * \<bar>x\<bar>) ` set data) = g * Max ?S"
  proof (rule Max_eqI)
    show "finite ((\<lambda>x. g * \<bar>x\<bar>) ` set data)" by simp
    show "g * Max ?S \<in> (\<lambda>x. g * \<bar>x\<bar>) ` set data" using x by force
    fix y assume "y \<in> (\<lambda>x. g * \<bar>x\<bar>) ` set data"
    then obtain z where z: "z \<in> set data" "y = g * \<bar>z\<bar>" by auto
    have "\<bar>z\<bar> \<le> Max ?S" using z(1) by simp
    then show "y \<le> g * Max ?S" using z(2) assms(2) by (simp add: mult_left_mono)
  qed
  then show ?thesis by (simp only: current_peak_def e)
qed

lemma peak_normalized_to_target:
  assumes "raw \<noteq> []"
  shows "\<exists>n. pyln_normalize_peak (zero_to_eps raw) t = Inr (Samples n)
     \<and> n = map (\<lambda>x. 10 powr (t / 20) / current_peak (zero_to_eps raw) * x) (zero_to_eps raw)
     \<and> current_peak n = 10 powr (t / 20)"
proof -
  let ?d = "zero_to_eps raw"
  let ?g = "10 powr (t / 20) / current_peak ?d"
  have M: "0 < current_peak ?d" using assms by (rule current_peak_pos)
  have ne: "?d \<noteq> []" using assms by simp
  have g: "0 \<le> ?g" using M by simp
  have "current_peak (map (\<lambda>x. ?g * x) ?d) = ?g * current_peak ?d"
    using ne g by (rule current_peak_scaled)
  also have "\<dots> = 10 powr (t / 20)" using M by simp
  finally have p: "current_peak (map (\<lambda>x. ?g * x) ?d) = 10 powr (t / 20)" .
  have "pyln_normalize_peak ?d t = Inr (Samples (map (\<lambda>x. ?g * x) ?d))"
    using ne M by (simp add: pyln_normalize_peak_def peak_scale_def)
  then show ?thesis using p by blast
qed

lemma blend_bound:
  fixes x M P :: real
  assumes "\<bar>x\<bar> \<le> M" "0 < M" "0 \<le> P"
  shows "\<bar>P / M * x * (9 / 10) + (1 / 10) * x\<bar> \<le> (9 / 10) * P + (1 / 10) * \<bar>x\<bar>"
proof -
  have g: "0 \<le> P / M" using assms by simp
  have "\<bar>P / M * x\<bar> = P / M * \<bar>x\<bar>" using g by (simp only: abs_mult abs_of_nonneg)
  also have "\<dots> \<le> P / M * M" using g assms(1) by (rule mult_left_mono [rotated])
  also have "\<dots> = P" using assms(2) by simp
  finally have a: "\<bar>P / M * x\<bar> \<le> P" .
  have "\<bar>P / M * x * (9 / 10) + (1 / 10) * x\<bar> \<le> \<bar>P / M * x * (9 / 10)\<bar> + \<bar>(1 / 10) * x\<bar>"
    by (rule abs_triangle_ineq)
  also have "\<dots> = \<bar>P / M * x\<bar> * (9 / 10) + (1 / 10) * \<bar>x\<bar>"
    by (simp add: abs_mult)
  finally have c: "\<bar>P / M * x * (9 / 10) + (1 / 10) * x\<bar>
      \<le> \<bar>P / M * x\<bar> * (9 / 10) + (1 / 10) * \<bar>x\<bar>" .
  have b: "\<bar>P / M * x\<bar> * (9 / 10) + (1 / 10) * \<bar>x\<bar> \<le> (9 / 10) * P + (1 / 10) * \<bar>x\<bar>"
    using a by simp
  show ?thesis using c b by (rule order_trans)
qed

lemma update_display_frame:
  "update_display file frame_count pos t s = Inr s2 \<Longrightarrow>
     volume s2 = volume s \<and> current_frame s2 = current_frame s
     \<and> (\<exists>d. s2 = s\<lparr>display_frame_data := d\<rparr>)"
  apply (auto simp: update_display_def split: sum.splits if_splits)
  apply (rule exI [of _ "display_frame_data s"]) apply simp
  done

lemma callback_locked_continue:
  assumes "callback_locked m file frame_count s = (s', Inr (paContinue (Samples out)))"
  shows "\<exists>raw t. sf_seek file (current_frame s) = None
      \<and> sf_read file (current_frame s) (int frame_count) = Inr raw \<and> raw \<noteq> []
      \<and> find_target_loudness m (audio_sample_rate s) raw = Inr (Some t)
      \<and> volume s' = volume s
      \<and> out = map (\<lambda>x. x * volume s)
           (map (\<lambda>x. peak_scale t / current_peak (zero_to_eps raw) * x * (9 / 10) + (1 / 10) * x)
              (zero_to_eps raw))"
  using assms
  apply (simp add: callback_locked_def Let_def
      split: option.splits sum.splits normalized.splits if_splits)
  apply (auto simp: normalize_blend_eps dest!: update_display_frame)
  done

lemma callback_locked_value:
  assumes "sf_seek file (current_frame s) = None"
    "sf_read file (current_frame s) (int frame_count) = Inr raw" "raw \<noteq> []"
    "find_target_loudness m (audio_sample_rate s) raw = Inr (Some t)"
    "\<not> is_window_focused s"
  shows "callback_locked m file frame_count s =
     (s\<lparr>current_frame := current_frame s + int frame_count\<rparr>,
      Inr (paContinue (Samples (map (\<lambda>x. x * volume s)
           (map (\<lambda>x. peak_scale t / current_peak (zero_to_eps raw) * x * (9 / 10) + (1 / 10) * x)
              (zero_to_eps raw))))))"
  using assms by (simp add: callback_locked_def Let_def normalize_blend_eps)


lemma callback_locked_never_nan:
  "callback_locked m file frame_count s \<noteq> (s', Inr (paContinue NaNSamples))"
  by (auto simp: callback_locked_def Let_def normalize_blend_eps
      dest: find_target_loudness_None
      split: option.splits sum.splits normalized.splits if_splits)

lemma blended_bound:
  assumes "raw \<noteq> []" "t \<le> 0"
  shows "list_all2 (\<lambda>b x. \<bar>b\<bar> \<le> (9 / 10) * peak_scale t + (1 / 10) * \<bar>x\<bar>)
     (map (\<lambda>x. peak_scale t / current_peak (zero_to_eps raw) * x * (9 / 10) + (1 / 10) * x)
        (zero_to_eps raw))
     (zero_to_eps raw)"
proof -
  have M: "0 < current_peak (zero_to_eps raw)" using assms(1) by (rule current_peak_pos)
  have P: "0 \<le> peak_scale t" by (simp add: peak_scale_def)
  show ?thesis
    unfolding list_all2_map1 list_all2_same
  proof (intro ballI)
    fix x assume "x \<in> set (zero_to_eps raw)"
    then have "\<bar>x\<bar> \<le> current_peak (zero_to_eps raw)" by (rule current_peak_ge)
    then show "\<bar>peak_scale t / current_peak (zero_to_eps raw) * x * (9 / 10) + (1 / 10) * x\<bar>
        \<le> (9 / 10) * peak_scale t + (1 / 10) * \<bar>x\<bar>"
      using M P by (rule blend_bound)
  qed
qed

text \<open>
  What the callback returns when it continues playback: the chunk after zero
  replacement, peak-normalised to the target loudness of the chunk as read (its largest
  magnitude brought to \<open>10 ** (target / 20)\<close>) and blended 90% / 10% with itself,
  times the volume. Every blended sample is at most nine tenths of that peak scale plus
  a tenth of the sample's own magnitude; the returned samples keep that bound when the
  volume is in \<open>[0, 1]\<close>.
\<close>

lemma callback_output_blend:
  assumes "callback m file frame_count s = (s', Inr (paContinue (Samples out)))"
  shows "\<exists>raw t peak_normalized blended.
      sf_read file (current_frame s) (int frame_count) = Inr raw
    \<and> find_target_loudness m (audio_sample_rate s) raw = Inr (Some t)
    \<and> pyln_normalize_peak (zero_to_eps raw) t = Inr (Samples peak_normalized)
    \<and> current_peak peak_normalized = 10 powr (t / 20)
    \<and> blended = map2 (\<lambda>a b. a * (9 / 10) + (1 / 10) * b) peak_normalized (zero_to_eps raw)
    \<and> out = map (\<lambda>x. x * volume s) blended
    \<and> list_all2 (\<lambda>b x. \<bar>b\<bar> - 10 powr (t / 20) \<le> (1 / 10) * \<bar>x\<bar>) blended (zero_to_eps raw)
    \<and> (0 \<le> volume s \<and> volume s \<le> 1 \<longrightarrow>
         list_all2 (\<lambda>y x. \<bar>y\<bar> - 10 powr (t / 20) \<le> (1 / 10) * \<bar>x\<bar>) out (zero_to_eps raw))"
proof -
  have cl: "callback_locked m file frame_count s = (s', Inr (paContinue (Samples out)))"
    using assms by (simp add: callback_def split: if_splits)
  from callback_locked_continue [OF cl] obtain raw t where
    r: "sf_read file (current_frame s) (int frame_count) = Inr raw" "raw \<noteq> []"
      "find_target_loudness m (audio_sample_rate s) raw = Inr (Some t)"
      "out = map (\<lambda>x. x * volume s)
           (map (\<lambda>x. peak_scale t / current_peak (zero_to_eps raw) * x * (9 / 10) + (1 / 10) * x)
              (zero_to_eps raw))"
    by blast
  let ?b = "map (\<lambda>x. peak_scale t / current_peak (zero_to_eps raw) * x * (9 / 10) + (1 / 10) * x)
              (zero_to_eps raw)"
  from peak_normalized_to_target [OF r(2), of t] obtain n where
    n: "pyln_normalize_peak (zero_to_eps raw) t = Inr (Samples n)"
       "n = map (\<lambda>x. 10 powr (t / 20) / current_peak (zero_to_eps raw) * x) (zero_to_eps raw)"
       "current_peak n = 10 powr (t / 20)"
    by blast
  have bl: "?b = map2 (\<lambda>a b. a * (9 / 10) + (1 / 10) * b) n (zero_to_eps raw)"
    unfolding n(2) by (simp add: map2_same peak_scale_def)
  have t: "t \<le> 0" using find_target_loudness_Some [OF r(3)] by simp
  have P: "0 \<le> peak_scale t" by (simp add: peak_scale_def)
  have b1: "list_all2 (\<lambda>b x. \<bar>b\<bar> \<le> (9 / 10) * peak_scale t + (1 / 10) * \<bar>x\<bar>) ?b (zero_to_eps raw)"
    using r(2) t by (rule blended_bound)
  have b2: "list_all2 (\<lambda>b x. \<bar>b\<bar> - peak_scale t \<le> (1 / 10) * \<bar>x\<bar>) ?b (zero_to_eps raw)"
    by (rule list_all2_mono [OF b1]) (use P in linarith)
  have b3: "list_all2 (\<lambda>y x. \<bar>y\<bar> - peak_scale t \<le> (1 / 10) * \<bar>x\<bar>) out (zero_to_eps raw)"
    if v: "0 \<le> volume s" "volume s \<le> 1"
  proof -
    have "list_all2 (\<lambda>b x. \<bar>b * volume s\<bar> - peak_scale t \<le> (1 / 10) * \<bar>x\<bar>) ?b (zero_to_eps raw)"
    proof (rule list_all2_mono [OF b2])
      fix b x :: real assume h: "\<bar>b\<bar> - peak_scale t \<le> (1 / 10) * \<bar>x\<bar>"
      have "\<bar>b * volume s\<bar> = \<bar>b\<bar> * volume s" using v by (simp add: abs_mult)
      also have "\<dots> \<le> \<bar>b\<bar> * 1" using v by (intro mult_left_mono) auto
      finally show "\<bar>b * volume s\<bar> - peak_scale t \<le> (1 / 10) * \<bar>x\<bar>" using h by simp
    qed
    then show ?thesis unfolding r(4) list_all2_map1 .
  qed
  have o: "out = map (\<lambda>x. x * volume s) ?b" by (rule r(4))
  show ?thesis
    apply (rule exI [of _ raw], rule exI [of _ t], rule exI [of _ n], rule exI [of _ ?b])
    using r(1,3) n(1,3) bl o b2 b3 apply (simp add: peak_scale_def)
    done
qed

lemma demo_player_fields:
  "current_frame demo_player = 0" "audio_sample_rate demo_player = 44100"
  "\<not> is_window_focused demo_player" "volume demo_player = 1 / 2"
  "\<not> is_stopped demo_player" "audio_frames demo_player = 2"
  by (simp_all add: demo_player_def AudioPlayer_with_volume_def AudioPlayer_init_def)

lemma loud_player_fields:
  "current_frame loud_player = 0" "audio_sample_rate loud_player = 44100"
  "\<not> is_window_focused loud_player" "volume loud_player = 5"
  "\<not> is_stopped loud_player" "audio_frames loud_player = 2"
  by (simp_all add: loud_player_def AudioPlayer_with_volume_def AudioPlayer_init_def)

lemma demo_file_ops:
  "sf_seek demo_file 0 = None" "sf_read demo_file 0 2 = Inr [1 / 2, 0]"
  "sf_seek demo_file 2 = None" "sf_read demo_file 2 2 = Inr []"
  "sf_seek demo_file 1 = None" "sf_read demo_file 1 2 = Inr [0]"
  "sf_read demo_file 2 100 = Inr []"
  by (simp_all add: demo_file_def list_file_def)

lemma demo_multiplier:
  "audio_std_target_loudness [1 / 2, 0] =
     Some (std_compression_max
           + (1 - std_compression_max) * ((1 / 4) / expected_std_max) powr std_compression_factor)"
  using std_quarter by (rule std_multiplier_form)

lemma demo_target_loudness:
  "find_target_loudness demo_meter 44100 [1 / 2, 0] = Inr (Some demo_target)"
  unfolding demo_target_def
  by (rule find_target_loudness_value [OF _ _ demo_multiplier]) (simp_all add: demo_meter_def)

lemma demo_chunk_eps:
  "zero_to_eps [1 / 2, 0] = [1 / 2, 1 / 10 ^ 12]"
  "current_peak [1 / 2, 1 / 10 ^ 12] = 1 / 2"
  "current_peak [1 / 2, 1 / 1000000000000] = 1 / 2"
  by (simp_all add: zero_to_eps_def current_peak_def)

lemma demo_callback:
  "callback demo_meter demo_file 2 demo_player =
     (demo_player\<lparr>current_frame := 2\<rparr>,
      Inr (paContinue (Samples (map (\<lambda>x. x * volume demo_player)
           (map (\<lambda>x. peak_scale demo_target / current_peak (zero_to_eps [1 / 2, 0]) * x * (9 / 10)
                       + (1 / 10) * x)
              (zero_to_eps [1 / 2, 0]))))))"
proof -
  have "callback_locked demo_meter demo_file 2 demo_player =
     (demo_player\<lparr>current_frame := current_frame demo_player + int 2\<rparr>,
      Inr (paContinue (Samples (map (\<lambda>x. x * volume demo_player)
           (map (\<lambda>x. peak_scale demo_target / current_peak (zero_to_eps [1 / 2, 0]) * x * (9 / 10)
                       + (1 / 10) * x)
              (zero_to_eps [1 / 2, 0]))))))"
    by (rule callback_locked_value)
       (simp_all add: demo_player_fields demo_file_ops demo_target_loudness)
  then show ?thesis by (simp add: callback_def demo_player_fields)
qed

text \<open>
  Claim C8. The buffer the callback returns is the blend times the volume, and the
  bound of the claim on the returned samples holds when the volume is in \<open>[0, 1]\<close>
  (lemma \<open>callback_output_blend\<close>). The constructor stores the volume it is given:
  on a player made with \<^verbatim>\<open>AudioPlayer(volume=5)\<close> and loaded with the two-frame
  file, the callback returns the blend times 5, and the first returned sample exceeds
  the peak scale \<open>10 ** (target / 20)\<close> by more than a tenth of the magnitude of the
  sample it comes from.
\<close>

theorem callback_output_scaled_by_unclamped_volume:
  "volume loud_player = 5
   \<and> callback demo_meter demo_file 2 loud_player =
       (loud_player\<lparr>current_frame := 2\<rparr>,
        Inr (paContinue (Samples (map (\<lambda>x. x * 5)
           (map (\<lambda>x. 10 powr (demo_target / 20) / (1 / 2) * x * (9 / 10) + (1 / 10) * x)
              [1 / 2, 1 / 10 ^ 12])))))
   \<and> (1 / 10) * \<bar>1 / 2 :: real\<bar>
       < \<bar>(10 powr (demo_target / 20) / (1 / 2) * (1 / 2) * (9 / 10) + (1 / 10) * (1 / 2)) * 5\<bar>
         - 10 powr (demo_target / 20)"
proof -
  have "callback_locked demo_meter demo_file 2 loud_player =
     (loud_player\<lparr>current_frame := current_frame loud_player + int 2\<rparr>,
      Inr (paContinue (Samples (map (\<lambda>x. x * volume loud_player)
           (map (\<lambda>x. peak_scale demo_target / current_peak (zero_to_eps [1 / 2, 0]) * x * (9 / 10)
                       + (1 / 10) * x)
              (zero_to_eps [1 / 2, 0]))))))"
    by (rule callback_locked_value)
       (simp_all add: loud_player_fields demo_file_ops demo_target_loudness)
  then have c: "callback demo_meter demo_file 2 loud_player =
       (loud_player\<lparr>current_frame := 2\<rparr>,
        Inr (paContinue (Samples (map (\<lambda>x. x * 5)
           (map (\<lambda>x. 10 powr (demo_target / 20) / (1 / 2) * x * (9 / 10) + (1 / 10) * x)
              [1 / 2, 1 / 10 ^ 12])))))"
    by (simp add: callback_def loud_player_fields demo_chunk_eps peak_scale_def)
  define P :: real where "P = 10 powr (demo_target / 20)"
  have P: "0 < P" by (simp add: P_def)
  have "(P / (1 / 2) * (1 / 2) * (9 / 10) + (1 / 10) * (1 / 2)) * 5 = 9 / 2 * P + 1 / 4"
    by simp
  moreover have "\<bar>9 / 2 * P + 1 / 4\<bar> = 9 / 2 * P + 1 / 4" using P by simp
  ultimately have "(1 / 10) * \<bar>1 / 2 :: real\<bar>
       < \<bar>(P / (1 / 2) * (1 / 2) * (9 / 10) + (1 / 10) * (1 / 2)) * 5\<bar> - P"
    using P by simp
  then show ?thesis using c unfolding P_def by (simp add: loud_player_fields)
qed




section \<open>Properties of the streaming task\<close>


lemma keeps_refl: "keeps s s"
  unfolding keeps_def
  by (rule exI [of _ "current_frame s"], rule exI [of _ "display_frame_data s"]) simp

lemma keeps_cursor: "keeps s (s\<lparr>current_frame := c\<rparr>)"
  unfolding keeps_def
  by (rule exI [of _ c], rule exI [of _ "display_frame_data s"]) simp

lemma keeps_display: "keeps s s1 \<Longrightarrow> update_display file n pos t s1 = Inr s2 \<Longrightarrow> keeps s s2"
  unfolding keeps_def
  by (auto simp: update_display_def split: sum.splits if_splits)

lemma callback_locked_keeps: "keeps s (fst (callback_locked m f n s))"
  by (auto simp: callback_locked_def Let_def keeps_refl keeps_cursor
      intro: keeps_display [OF keeps_cursor]
      split: option.splits sum.splits normalized.splits if_splits)

lemma keeps_fields:
  "keeps s s' \<Longrightarrow> audio_path s' = audio_path s \<and> audio_frames s' = audio_frames s
     \<and> audio_sample_rate s' = audio_sample_rate s \<and> no_audio_loaded s' = no_audio_loaded s
     \<and> is_stopped s' = is_stopped s \<and> is_playback_unpaused s' = is_playback_unpaused s
     \<and> volume s' = volume s"
  by (auto simp: keeps_def)

lemma stream_inv_step:
  assumes "stream_inv w sh0 c" "stream_step w n c c'"
  shows "stream_inv w sh0 c'"
proof -
  obtain l sh where c: "c = (l, sh)" by (cases c)
  have k: "keeps sh (fst (callback_locked (loudness_meter w) f n sh))" for f
    by (rule callback_locked_keeps)
  show ?thesis
  proof (cases l)
    case (L145 f)
    obtain sh' r where cb: "callback_locked (loudness_meter w) f n sh = (sh', r)"
      by (cases "callback_locked (loudness_meter w) f n sh")
    have "keeps sh sh'" using k [of f] cb by simp
    then have f: "audio_path sh' = audio_path sh" "audio_frames sh' = audio_frames sh"
      "audio_sample_rate sh' = audio_sample_rate sh"
      using keeps_fields by blast+
    show ?thesis using assms c L145 cb f
      by (auto simp: stream_inv_def stream_step_def same_or_header_def
          split: sum.splits cb_result.splits)
  next
    case (L136 f)
    then show ?thesis using assms c
      by (auto simp: stream_inv_def stream_step_def same_or_header_def split: sum.splits)
  qed (use assms c in \<open>auto simp: stream_inv_def stream_step_def same_or_header_def
          split: sum.splits if_splits\<close>)
qed

lemma stream_inv_run:
  assumes "stream_run w n c c'" "stream_inv w sh0 c"
  shows "stream_inv w sh0 c'"
  using assms unfolding stream_run_def
  by (induction rule: rtranclp_induct) (auto intro: stream_inv_step)

text \<open>
  Claim C3, as the code has it. A streaming task whose device handle was created
  (line 134 done), run to its exit on whatever path (end of stream, stop, an exception
  in the body) with no other thread writing the player: when it has exited, the
  \<^verbatim>\<open>finally\<close> block has set \<open>no_audio_loaded\<close> and reset \<open>current_frame\<close> to 0,
  and nothing else. \<open>audio_path\<close> is the path the task started with; \<open>audio_frames\<close>
  and \<open>audio_sample_rate\<close> are the values it started with, or the header of the file
  at that path if it got as far as reading it.
\<close>

theorem stream_exit_resets_cursor_only:
  assumes "stream_run w n (L135, sh0) (Exited x, sh)"
  shows "current_frame sh = 0 \<and> no_audio_loaded sh
    \<and> audio_path sh = audio_path sh0
    \<and> ((audio_frames sh = audio_frames sh0 \<and> audio_sample_rate sh = audio_sample_rate sh0)
        \<or> (\<exists>i. open_file w (audio_path sh0) = Inr i
               \<and> audio_frames sh = sf_frames i \<and> audio_sample_rate sh = sf_samplerate i))"
proof -
  have "stream_inv w sh0 (L135, sh0)" by (simp add: stream_inv_def same_or_header_def)
  then have "stream_inv w sh0 (Exited x, sh)" by (rule stream_inv_run [OF assms])
  then show ?thesis by (simp add: stream_inv_def same_or_header_def)
qed

lemma demo_world_fields:
  "open_file demo_world (Some ''a.wav'') = Inr demo_file" "loudness_meter demo_world = demo_meter"
  "sf_samplerate demo_file = 44100" "sf_frames demo_file = 2"
  by (simp_all add: demo_world_def demo_file_def list_file_def)

lemma playing_player_fields:
  "audio_path started_player = Some ''a.wav''"
  "is_playback_unpaused playing_player" "\<not> is_stopped playing_player"
  "audio_sample_rate playing_player = 44100" "current_frame playing_player = 0"
  "\<not> is_window_focused playing_player" "volume playing_player = 1"
  "\<not> no_audio_loaded playing_player" "audio_frames playing_player = 2"
  "audio_path playing_player = Some ''a.wav''"
  by (simp_all add: playing_player_def started_player_def AudioPlayer_with_volume_def
      AudioPlayer_init_def)

lemma stream_run_step:
  "stream_step w n a b \<Longrightarrow> stream_run w n b c \<Longrightarrow> stream_run w n a c"
  unfolding stream_run_def by (rule converse_rtranclp_into_rtranclp)

lemma stream_run_refl: "stream_run w n a a"
  unfolding stream_run_def by simp

lemma demo_first_chunk:
  "\<exists>buffer. callback_locked demo_meter demo_file 2 playing_player
     = (playing_player\<lparr>current_frame := 2\<rparr>, Inr (paContinue buffer))"
proof -
  have "callback_locked demo_meter demo_file 2 playing_player =
     (playing_player\<lparr>current_frame := current_frame playing_player + int 2\<rparr>,
      Inr (paContinue (Samples (map (\<lambda>x. x * volume playing_player)
           (map (\<lambda>x. peak_scale demo_target / current_peak (zero_to_eps [1 / 2, 0]) * x * (9 / 10)
                       + (1 / 10) * x)
              (zero_to_eps [1 / 2, 0]))))))"
    by (rule callback_locked_value)
       (simp_all add: playing_player_fields demo_file_ops demo_target_loudness)
  then show ?thesis by (simp add: playing_player_fields)
qed

lemma demo_last_chunk:
  "callback_locked demo_meter demo_file 2 (playing_player\<lparr>current_frame := 2\<rparr>)
     = (playing_player\<lparr>current_frame := 4\<rparr>, Inr paComplete)"
  by (simp add: callback_locked_def playing_player_fields demo_file_ops find_target_loudness_def
      audio_std_target_loudness_def demo_meter_def np_std_def)

lemma demo_stream_run:
  "stream_run demo_world 2 (L135, started_player)
     (Exited None, playing_player\<lparr>current_frame := 0, no_audio_loaded := True\<rparr>)"
proof -
  let ?w = demo_world
  let ?p = playing_player
  obtain buffer where b: "callback_locked demo_meter demo_file 2 ?p
     = (?p\<lparr>current_frame := 2\<rparr>, Inr (paContinue buffer))"
    using demo_first_chunk by blast
  have 1: "stream_step ?w 2 (L135, started_player) (L136 demo_file, started_player)"
    by (simp add: stream_step_def demo_world_fields playing_player_fields)
  have 2: "stream_step ?w 2 (L136 demo_file, started_player) (L165 demo_file, ?p)"
    by (simp add: stream_step_def demo_world_fields playing_player_fields playing_player_def)
  have 3: "stream_step ?w 2 (L165 demo_file, ?p) (L171 demo_file, ?p)"
    by (simp add: stream_step_def)
  have 4: "stream_step ?w 2 (L171 demo_file, ?p) (L141 demo_file, ?p)"
    by (simp add: stream_step_def)
  have 5: "stream_step ?w 2 (L141 demo_file, ?p) (L142 demo_file, ?p)"
    by (simp add: stream_step_def playing_player_fields)
  have 6: "stream_step ?w 2 (L142 demo_file, ?p) (L145 demo_file, ?p)"
    by (simp add: stream_step_def playing_player_fields)
  have 7: "stream_step ?w 2 (L145 demo_file, ?p) (L141 demo_file, ?p\<lparr>current_frame := 2\<rparr>)"
    by (simp add: stream_step_def demo_world_fields b)
  have 8: "stream_step ?w 2 (L141 demo_file, ?p\<lparr>current_frame := 2\<rparr>)
      (L142 demo_file, ?p\<lparr>current_frame := 2\<rparr>)"
    by (simp add: stream_step_def playing_player_fields)
  have 9: "stream_step ?w 2 (L142 demo_file, ?p\<lparr>current_frame := 2\<rparr>)
      (L145 demo_file, ?p\<lparr>current_frame := 2\<rparr>)"
    by (simp add: stream_step_def playing_player_fields)
  have 10: "stream_step ?w 2 (L145 demo_file, ?p\<lparr>current_frame := 2\<rparr>)
      (L174, ?p\<lparr>current_frame := 4\<rparr>)"
    by (simp add: stream_step_def demo_world_fields demo_last_chunk)
  have 11: "stream_step ?w 2 (L174, ?p\<lparr>current_frame := 4\<rparr>)
      (L177 True None, ?p\<lparr>current_frame := 4\<rparr>)"
    by (simp add: stream_step_def)
  have 12: "stream_step ?w 2 (L177 True None, ?p\<lparr>current_frame := 4\<rparr>)
      (L178 None, ?p\<lparr>current_frame := 4\<rparr>)"
    by (simp add: stream_step_def)
  have 13: "stream_step ?w 2 (L178 None, ?p\<lparr>current_frame := 4\<rparr>)
      (L179 None, ?p\<lparr>current_frame := 4, no_audio_loaded := True\<rparr>)"
    by (simp add: stream_step_def)
  have 14: "stream_step ?w 2 (L179 None, ?p\<lparr>current_frame := 4, no_audio_loaded := True\<rparr>)
      (Exited None, ?p\<lparr>current_frame := 0, no_audio_loaded := True\<rparr>)"
    by (simp add: stream_step_def)
  show ?thesis
    by (intro stream_run_step [OF 1] stream_run_step [OF 2] stream_run_step [OF 3]
        stream_run_step [OF 4] stream_run_step [OF 5] stream_run_step [OF 6]
        stream_run_step [OF 7] stream_run_step [OF 8] stream_run_step [OF 9]
        stream_run_step [OF 10] stream_run_step [OF 11] stream_run_step [OF 12]
        stream_run_step [OF 13] stream_run_step [OF 14] stream_run_refl)
qed

text \<open>The theorem on the run that plays the two-frame file to its end.\<close>

theorem stream_exit_resets_cursor_only_witness:
  "stream_run demo_world 2 (L135, started_player)
     (Exited None, playing_player\<lparr>current_frame := 0, no_audio_loaded := True\<rparr>)
   \<and> current_frame (playing_player\<lparr>current_frame := 0, no_audio_loaded := True\<rparr>) = 0
   \<and> no_audio_loaded (playing_player\<lparr>current_frame := 0, no_audio_loaded := True\<rparr>)
   \<and> audio_path (playing_player\<lparr>current_frame := 0, no_audio_loaded := True\<rparr>)
       = audio_path started_player"
  using stream_exit_resets_cursor_only [OF demo_stream_run] demo_stream_run by simp

text \<open>After that run, at the natural end of the stream, the path, the frame count and
  the sample rate are still those of the file: they are not reset to none or zero.\<close>

theorem stream_exit_keeps_path_and_header:
  "stream_run demo_world 2 (L135, started_player)
     (Exited None, playing_player\<lparr>current_frame := 0, no_audio_loaded := True\<rparr>)
   \<and> audio_path (playing_player\<lparr>current_frame := 0, no_audio_loaded := True\<rparr>) = Some ''a.wav''
   \<and> audio_frames (playing_player\<lparr>current_frame := 0, no_audio_loaded := True\<rparr>) = 2
   \<and> audio_sample_rate (playing_player\<lparr>current_frame := 0, no_audio_loaded := True\<rparr>) = 44100"
  using demo_stream_run by (simp add: playing_player_fields)

text \<open>
  Claim C6. Cleanup is to run on every exit of the task. It does on every exit after
  line 134 (the invariant \<open>stream_inv\<close>), but line 134 itself,
  \<^verbatim>\<open>p = pyaudio.PyAudio()\<close>, is inside the \<^verbatim>\<open>try\<close>: when it raises, \<^verbatim>\<open>p\<close> is
  unbound, \<^verbatim>\<open>p.terminate()\<close> at line 177 raises in turn, and lines 178-180 never
  run. Here the task starts on a player whose cursor a seek has put at frame 1: it
  exits with \<open>no_audio_loaded\<close> still clear and the cursor still at 1; and the
  controller of the next call, once at its wait in line 122 with that task as the
  previous one, has no step, nor has any other thread.
\<close>

theorem cleanup_skipped_when_PyAudio_raises:
  "stream_run demo_world 2 (L134, playing_player\<lparr>current_frame := 1\<rparr>)
     (Exited (Some UnboundLocalError), playing_player\<lparr>current_frame := 1\<rparr>)
   \<and> stream_succ demo_world 2
        (Exited (Some UnboundLocalError), playing_player\<lparr>current_frame := 1\<rparr>) = []
   \<and> \<not> no_audio_loaded (playing_player\<lparr>current_frame := 1\<rparr>)
   \<and> current_frame (playing_player\<lparr>current_frame := 1\<rparr>) = 1
   \<and> sys_succ demo_world
        (swap_system
           (playing_player\<lparr>current_frame := 1, is_stopped := True,
              is_playback_unpaused := True\<rparr>)
           M122 (Exited (Some UnboundLocalError)) None) = []"
proof -
  let ?s = "playing_player\<lparr>current_frame := 1\<rparr>"
  have 1: "stream_step demo_world 2 (L134, ?s) (L177 False (Some OSError), ?s)"
    by (simp add: stream_step_def)
  have 2: "stream_step demo_world 2 (L177 False (Some OSError), ?s)
      (Exited (Some UnboundLocalError), ?s)"
    by (simp add: stream_step_def)
  have r: "stream_run demo_world 2 (L134, ?s) (Exited (Some UnboundLocalError), ?s)"
    by (intro stream_run_step [OF 1] stream_run_step [OF 2] stream_run_refl)
  have b: "sys_succ demo_world
        (swap_system
           (playing_player\<lparr>current_frame := 1, is_stopped := True,
              is_playback_unpaused := True\<rparr>)
           M122 (Exited (Some UnboundLocalError)) None) = []"
    by (simp add: sys_succ_def main_succ_def old_succ_def new_succ_def swap_system_def
        playing_player_fields)
  show ?thesis using r b by (simp add: playing_player_fields)
qed

section \<open>Properties of the controller\<close>

lemma in_stream_old_ok: "in_stream l \<Longrightarrow> old_ok l \<and> \<not> has_vacated l \<and> exited_at_zero l sh"
  by (cases l) simp_all

lemma paused_swap_inv_init: "paused_with_active_stream s \<Longrightarrow> paused_swap_inv s"
  by (auto simp: paused_with_active_stream_def paused_swap_inv_def dest: in_stream_old_ok)

lemma callback_locked_flags:
  "callback_locked m f n sh = (sh', r) \<Longrightarrow> is_stopped sh' = is_stopped sh
     \<and> is_playback_unpaused sh' = is_playback_unpaused sh
     \<and> no_audio_loaded sh' = no_audio_loaded sh \<and> audio_path sh' = audio_path sh"
  using callback_locked_keeps [of sh m f n] by (auto simp: keeps_def)

lemma stream_succ_flags:
  assumes "(l', sh') \<in> set (stream_succ w n (l, sh))"
  shows "is_stopped sh' = is_stopped sh \<and> is_playback_unpaused sh' = is_playback_unpaused sh
     \<and> audio_path sh' = audio_path sh"
proof (cases l)
  case (L145 f)
  obtain sh2 r where cb: "callback_locked (loudness_meter w) f n sh = (sh2, r)"
    by (cases "callback_locked (loudness_meter w) f n sh")
  have "sh' = sh2" using assms L145 cb by (auto split: sum.splits cb_result.splits)
  then show ?thesis using callback_locked_flags [OF cb] by simp
qed (use assms in \<open>auto split: sum.splits if_splits\<close>)

lemma stream_succ_vacate:
  assumes "(l', sh') \<in> set (stream_succ w n (l, sh))" "old_ok l"
  shows "(no_audio_loaded sh' = no_audio_loaded sh \<and> has_vacated l' = has_vacated l)
     \<or> (\<not> has_vacated l \<and> has_vacated l' \<and> no_audio_loaded sh')"
proof (cases l)
  case (L145 f)
  obtain sh2 r where cb: "callback_locked (loudness_meter w) f n sh = (sh2, r)"
    by (cases "callback_locked (loudness_meter w) f n sh")
  have "sh' = sh2 \<and> (l' = L141 f \<or> l' = L174)"
    using assms L145 cb by (auto split: sum.splits cb_result.splits)
  then show ?thesis using callback_locked_flags [OF cb] L145 by auto
qed (use assms in \<open>auto split: sum.splits if_splits\<close>)

lemma stream_succ_old_ok:
  assumes "(l', sh') \<in> set (stream_succ w n (l, sh))" "old_ok l"
  shows "old_ok l' \<and> exited_at_zero l' sh'"
proof (cases l)
  case (L145 f)
  obtain sh2 r where cb: "callback_locked (loudness_meter w) f n sh = (sh2, r)"
    by (cases "callback_locked (loudness_meter w) f n sh")
  have "l' = L141 f \<or> l' = L174"
    using assms L145 cb by (auto split: sum.splits cb_result.splits)
  then show ?thesis by auto
qed (use assms in \<open>auto split: sum.splits if_splits\<close>)

lemma stream_succ_new_waiting:
  assumes "(l', sh') \<in> set (stream_succ w n (l, sh))" "new_waiting l"
    "\<not> is_playback_unpaused sh"
  shows "new_waiting l' \<and> (current_frame sh' = current_frame sh \<or> current_frame sh' = 0)"
  using assms by (cases l) (auto split: sum.splits if_splits)

lemma swap_assert_vacate:
  "swap_assert m st un sv False False ins \<Longrightarrow> swap_assert m st un sv True True ins"
  by (cases m) simp_all

lemma exited_at_zero_flags [simp]:
  "exited_at_zero l (sh\<lparr>is_stopped := b\<rparr>) = exited_at_zero l sh"
  "exited_at_zero l (sh\<lparr>is_playback_unpaused := b\<rparr>) = exited_at_zero l sh"
  "exited_at_zero l (sh\<lparr>no_audio_loaded := b\<rparr>) = exited_at_zero l sh"
  "exited_at_zero l (sh\<lparr>audio_path := p\<rparr>) = exited_at_zero l sh"
  by (cases l; simp)+

lemma paused_swap_inv_main:
  assumes "paused_swap_inv s" "s' \<in> set (main_succ s)"
  shows "paused_swap_inv s'"
  using assms
  by (cases "main s")
     (auto simp: paused_swap_inv_def main_succ_def path_installed_def
        split: if_splits option.splits)

lemma paused_swap_inv_old:
  assumes "paused_swap_inv s" "s' \<in> set (old_succ w s)"
  shows "paused_swap_inv s'"
proof -
  from assms(1) obtain l where l: "old_stream s = Some l" "old_ok l"
    and a: "swap_assert (main s) (is_stopped (shared s)) (is_playback_unpaused (shared s))
             (is_unpaused s) (no_audio_loaded (shared s)) (has_vacated l) (path_installed s)"
    and n: "new_assert (main s) (new_stream s)"
    by (auto simp: paused_swap_inv_def)
  from assms(2) l obtain l' sh' where
    st: "(l', sh') \<in> set (stream_succ w (old_chunk_size s) (l, shared s))"
    and s': "s' = s\<lparr>old_stream := Some l', shared := sh'\<rparr>"
    by (auto simp: old_succ_def)
  note fl = stream_succ_flags [OF st]
  note ok = stream_succ_old_ok [OF st l(2)]
  have inst: "path_installed s' = path_installed s"
    using fl by (simp add: path_installed_def s' split: option.splits)
  have "swap_assert (main s) (is_stopped sh') (is_playback_unpaused sh')
             (is_unpaused s) (no_audio_loaded sh') (has_vacated l') (path_installed s)"
    using stream_succ_vacate [OF st l(2)]
  proof
    assume "no_audio_loaded sh' = no_audio_loaded (shared s) \<and> has_vacated l' = has_vacated l"
    then show ?thesis using a fl by simp
  next
    assume v: "\<not> has_vacated l \<and> has_vacated l' \<and> no_audio_loaded sh'"
    have "no_audio_loaded (shared s) = False"
      using a v by (cases "main s") simp_all
    then show ?thesis using a fl v swap_assert_vacate by auto
  qed
  then show ?thesis using ok n inst by (simp add: paused_swap_inv_def s')
qed

lemma paused_swap_inv_new:
  assumes "paused_swap_inv s" "s' \<in> set (new_succ w s)"
  shows "paused_swap_inv s'"
proof -
  from assms(2) obtain l where nl: "new_stream s = Some l"
    by (cases "new_stream s") (auto simp: new_succ_def)
  from assms(2) nl obtain l' sh' where
    st: "(l', sh') \<in> set (stream_succ w (chunk_size s) (l, shared s))"
    and s': "s' = s\<lparr>new_stream := Some l', shared := sh'\<rparr>"
    by (auto simp: new_succ_def)
  have m: "main s = Returned"
    using assms(1) nl by (cases "main s") (auto simp: paused_swap_inv_def)
  from assms(1) m nl obtain lo where lo: "old_stream s = Some lo" "old_ok lo"
    "exited_at_zero lo (shared s)" "has_vacated lo"
    and f: "\<not> is_stopped (shared s)" "\<not> is_playback_unpaused (shared s)" "path_installed s"
    and w: "new_waiting l"
    by (auto simp: paused_swap_inv_def)
  note fl = stream_succ_flags [OF st]
  note nw = stream_succ_new_waiting [OF st w f(2)]
  have inst: "path_installed s' = path_installed s"
    using fl by (simp add: path_installed_def s' split: option.splits)
  have ez: "exited_at_zero lo sh'"
    using nw lo(3) by (cases lo) auto
  show ?thesis
    using lo(1,2,4) ez f fl nw inst m by (simp add: paused_swap_inv_def s')
qed

lemma paused_swap_inv_step:
  assumes "paused_swap_inv s" "sys_step w s s'"
  shows "paused_swap_inv s'"
proof -
  from assms(2) consider "s' \<in> set (main_succ s)" | "s' \<in> set (old_succ w s)"
    | "s' \<in> set (new_succ w s)"
    unfolding sys_step_def sys_succ_def by auto
  then show ?thesis
  proof cases
    case 1 with assms(1) show ?thesis by (rule paused_swap_inv_main)
  next
    case 2 with assms(1) show ?thesis by (rule paused_swap_inv_old)
  next
    case 3 with assms(1) show ?thesis by (rule paused_swap_inv_new)
  qed
qed

lemma paused_swap_inv_run:
  assumes "sys_run w s0 s" "paused_swap_inv s0"
  shows "paused_swap_inv s"
  using assms unfolding sys_run_def
proof (induction rule: rtranclp_induct)
  case base
  then show ?case .
next
  case (step y z)
  then show ?case using paused_swap_inv_step by blast
qed

lemma stream_rank_stopped_le: "stream_rank True l \<le> stream_rank b l"
  by (cases l) simp_all

lemma stream_rank_vacated: "has_vacated l \<Longrightarrow> stream_rank b l = stream_rank False l"
  by (cases l) simp_all

lemma stream_rank_step:
  assumes "(l', sh') \<in> set (stream_succ w n (l, sh))"
    "is_playback_unpaused sh \<longrightarrow> is_stopped sh"
  shows "stream_rank (is_stopped sh') l' < stream_rank (is_stopped sh) l"
proof (cases l)
  case (L145 f)
  obtain sh2 r where cb: "callback_locked (loudness_meter w) f n sh = (sh2, r)"
    by (cases "callback_locked (loudness_meter w) f n sh")
  have "l' = L141 f \<or> l' = L174"
    using assms L145 cb by (auto split: sum.splits cb_result.splits)
  then show ?thesis using L145 by auto
qed (use assms in \<open>auto split: sum.splits if_splits\<close>)

lemma swap_assert_unpaused_stopped:
  "swap_assert m st un sv ld vac ins \<Longrightarrow> un \<longrightarrow> st"
  by (cases m) simp_all

lemma stream_succ_nonempty:
  assumes "old_ok l" "\<not> has_vacated l" "is_playback_unpaused sh"
  shows "stream_succ w n (l, sh) \<noteq> []"
proof (cases l)
  case (L145 f)
  obtain sh2 r where cb: "callback_locked (loudness_meter w) f n sh = (sh2, r)"
    by (cases "callback_locked (loudness_meter w) f n sh")
  show ?thesis using L145 cb by (simp split: sum.splits cb_result.splits)
qed (use assms in \<open>auto split: sum.splits if_splits\<close>)

lemma sys_measure_main:
  assumes "paused_swap_inv s" "s' \<in> set (main_succ s)"
  shows "sys_measure s' < sys_measure s"
proof -
  from assms(1) obtain l where l: "old_stream s = Some l"
    and a: "swap_assert (main s) (is_stopped (shared s)) (is_playback_unpaused (shared s))
             (is_unpaused s) (no_audio_loaded (shared s)) (has_vacated l) (path_installed s)"
    and n: "new_assert (main s) (new_stream s)"
    by (auto simp: paused_swap_inv_def)
  note le = stream_rank_stopped_le [of l "is_stopped (shared s)"]
  show ?thesis
  proof (cases "main s")
    case M117
    then show ?thesis using assms(2) l n le by (auto simp: main_succ_def sys_measure_def)
  next
    case M130
    then have "has_vacated l" using a by simp
    then have "stream_rank (is_stopped (shared s)) l = stream_rank False l"
      by (rule stream_rank_vacated)
    then show ?thesis using assms(2) l n M130 by (auto simp: main_succ_def sys_measure_def)
  qed (use assms(2) l n in \<open>auto simp: main_succ_def sys_measure_def
          split: if_splits option.splits\<close>)
qed

lemma sys_measure_old:
  assumes "paused_swap_inv s" "s' \<in> set (old_succ w s)"
  shows "sys_measure s' < sys_measure s"
proof -
  from assms(1) obtain l where l: "old_stream s = Some l"
    and a: "swap_assert (main s) (is_stopped (shared s)) (is_playback_unpaused (shared s))
             (is_unpaused s) (no_audio_loaded (shared s)) (has_vacated l) (path_installed s)"
    by (auto simp: paused_swap_inv_def)
  from assms(2) l obtain l' sh' where
    st: "(l', sh') \<in> set (stream_succ w (old_chunk_size s) (l, shared s))"
    and s': "s' = s\<lparr>old_stream := Some l', shared := sh'\<rparr>"
    by (auto simp: old_succ_def)
  note fl = stream_succ_flags [OF st]
  have "stream_rank (is_stopped sh') l' < stream_rank (is_stopped (shared s)) l"
    using st swap_assert_unpaused_stopped [OF a] by (rule stream_rank_step)
  then show ?thesis using l fl by (simp add: sys_measure_def s' split: option.splits)
qed

lemma sys_measure_new:
  assumes "paused_swap_inv s" "s' \<in> set (new_succ w s)"
  shows "sys_measure s' < sys_measure s"
proof -
  from assms(1) obtain lo where
    a: "swap_assert (main s) (is_stopped (shared s)) (is_playback_unpaused (shared s))
             (is_unpaused s) (no_audio_loaded (shared s)) (has_vacated lo) (path_installed s)"
    by (auto simp: paused_swap_inv_def)
  from assms(2) obtain l where nl: "new_stream s = Some l"
    by (cases "new_stream s") (auto simp: new_succ_def)
  from assms(2) nl obtain l' sh' where
    st: "(l', sh') \<in> set (stream_succ w (chunk_size s) (l, shared s))"
    and s': "s' = s\<lparr>new_stream := Some l', shared := sh'\<rparr>"
    by (auto simp: new_succ_def)
  note fl = stream_succ_flags [OF st]
  have "stream_rank (is_stopped sh') l' < stream_rank (is_stopped (shared s)) l"
    using st swap_assert_unpaused_stopped [OF a] by (rule stream_rank_step)
  then show ?thesis using nl fl by (simp add: sys_measure_def s' split: option.splits)
qed

lemma sys_measure_step:
  assumes "paused_swap_inv s" "sys_step w s s'"
  shows "sys_measure s' < sys_measure s"
proof -
  from assms(2) consider "s' \<in> set (main_succ s)" | "s' \<in> set (old_succ w s)"
    | "s' \<in> set (new_succ w s)"
    unfolding sys_step_def sys_succ_def by auto
  then show ?thesis
  proof cases
    case 1 with assms(1) show ?thesis by (rule sys_measure_main)
  next
    case 2 with assms(1) show ?thesis by (rule sys_measure_old)
  next
    case 3 with assms(1) show ?thesis by (rule sys_measure_new)
  qed
qed

lemma paused_swap_quiescent:
  assumes "paused_swap_inv s" "sys_succ w s = []"
  shows "main s = Returned \<and> (\<exists>x. old_stream s = Some (Exited x))
     \<and> current_frame (shared s) = 0 \<and> \<not> is_playback_unpaused (shared s)
     \<and> \<not> is_stopped (shared s) \<and> path_installed s"
proof -
  from assms(1) obtain l where l: "old_stream s = Some l" "old_ok l"
    "exited_at_zero l (shared s)"
    and a: "swap_assert (main s) (is_stopped (shared s)) (is_playback_unpaused (shared s))
             (is_unpaused s) (no_audio_loaded (shared s)) (has_vacated l) (path_installed s)"
    by (auto simp: paused_swap_inv_def)
  have m0: "main_succ s = []" and o0: "old_succ w s = []"
    using assms(2) by (simp_all add: sys_succ_def)
  have so: "stream_succ w (old_chunk_size s) (l, shared s) = []"
    using o0 l(1) by (simp add: old_succ_def)
  have m: "main s = Returned"
  proof (rule ccontr)
    assume nr: "main s \<noteq> Returned"
    then have w: "main s = M122 \<and> \<not> no_audio_loaded (shared s)"
      using m0 by (cases "main s") (auto simp: main_succ_def split: if_splits)
    then have "\<not> has_vacated l \<and> is_playback_unpaused (shared s)" using a by simp
    then have "stream_succ w (old_chunk_size s) (l, shared s) \<noteq> []"
      using l(2) by (simp add: stream_succ_nonempty)
    then show False using so by simp
  qed
  then have r: "\<not> is_stopped (shared s)" "\<not> is_playback_unpaused (shared s)"
    "has_vacated l" "path_installed s"
    using a by simp_all
  obtain x where x: "l = Exited x"
    using r(3) so by (cases l) auto
  then have "current_frame (shared s) = 0" using l(3) by simp
  then show ?thesis using m r x l(1) by simp
qed

text \<open>
  The swap with the three threads alone. A call of \<^verbatim>\<open>start_audio_playback\<close> made
  while playback is paused and the previous stream is active, in every state any
  interleaving of the controller, the previous task and the new task can reach, no other
  thread calling the player: the stop event is
  set before the unpaused event is forced (lines 119, 120), and both are set while the
  controller waits (line 122); the wait is left only when \<open>no_audio_loaded\<close> is set,
  and from then on the previous task has vacated; the pause is restored after that
  (line 124 runs with the event still forced) and stays. These three threads cannot
  deadlock: every step lowers \<open>sys_measure\<close>, and a state with no step has the
  controller returned, the previous task exited, the cursor at 0, playback paused and
  the new path installed.
\<close>

theorem paused_swap_alone:
  assumes "paused_with_active_stream s0" "sys_run w s0 s"
  shows "(main s = M119 \<or> main s = M120 \<longrightarrow>
            is_stopped (shared s) \<and> \<not> is_playback_unpaused (shared s))
    \<and> (main s = M122 \<longrightarrow> is_stopped (shared s) \<and> is_playback_unpaused (shared s))
    \<and> (main s = M124 \<longrightarrow> is_playback_unpaused (shared s) \<and> no_audio_loaded (shared s))
    \<and> (main s \<in> {M124, M126, M129, M130, M181, Returned} \<longrightarrow>
          (\<exists>l. old_stream s = Some l \<and> has_vacated l))
    \<and> (main s \<in> {M126, M129, M130, M181, Returned} \<longrightarrow> \<not> is_playback_unpaused (shared s))
    \<and> (sys_succ w s = [] \<longrightarrow>
          main s = Returned \<and> (\<exists>x. old_stream s = Some (Exited x))
          \<and> current_frame (shared s) = 0 \<and> \<not> is_playback_unpaused (shared s)
          \<and> path_installed s)
    \<and> (\<forall>s'. sys_step w s s' \<longrightarrow> sys_measure s' < sys_measure s)"
proof -
  have inv: "paused_swap_inv s"
    using assms(2) paused_swap_inv_init [OF assms(1)] by (rule paused_swap_inv_run)
  then obtain l where l: "old_stream s = Some l"
    and a: "swap_assert (main s) (is_stopped (shared s)) (is_playback_unpaused (shared s))
             (is_unpaused s) (no_audio_loaded (shared s)) (has_vacated l) (path_installed s)"
    by (auto simp: paused_swap_inv_def)
  have 1: "main s = M119 \<or> main s = M120 \<Longrightarrow>
      is_stopped (shared s) \<and> \<not> is_playback_unpaused (shared s)"
    using a by auto
  have 2: "main s = M122 \<Longrightarrow> is_stopped (shared s) \<and> is_playback_unpaused (shared s)"
    using a by auto
  have 3: "main s = M124 \<Longrightarrow> is_playback_unpaused (shared s) \<and> no_audio_loaded (shared s)"
    using a by auto
  have 4: "main s \<in> {M124, M126, M129, M130, M181, Returned} \<Longrightarrow>
      \<exists>l. old_stream s = Some l \<and> has_vacated l"
    using a l by auto
  have 5: "main s \<in> {M126, M129, M130, M181, Returned} \<Longrightarrow>
      \<not> is_playback_unpaused (shared s)"
    using a by auto
  have 6: "sys_succ w s = [] \<Longrightarrow>
          main s = Returned \<and> (\<exists>x. old_stream s = Some (Exited x))
          \<and> current_frame (shared s) = 0 \<and> \<not> is_playback_unpaused (shared s)
          \<and> path_installed s"
    using paused_swap_quiescent [OF inv] by blast
  have 7: "\<forall>s'. sys_step w s s' \<longrightarrow> sys_measure s' < sys_measure s"
    using sys_measure_step [OF inv] by blast
  show ?thesis using 1 2 3 4 5 6 7 by blast
qed

subsection \<open>A swap, step by step\<close>

lemma sys_run_step: "sys_step w a b \<Longrightarrow> sys_run w b c \<Longrightarrow> sys_run w a c"
  unfolding sys_run_def by (rule converse_rtranclp_into_rtranclp)

lemma sys_run_refl: "sys_run w a a"
  unfolding sys_run_def by simp

lemma sys_run_trans: "sys_run w a b \<Longrightarrow> sys_run w b c \<Longrightarrow> sys_run w a c"
  unfolding sys_run_def by (rule rtranclp_trans)

lemma sys_step_main: "s' \<in> set (main_succ s) \<Longrightarrow> sys_step w s s'"
  by (simp add: sys_step_def sys_succ_def)

lemma sys_step_old: "s' \<in> set (old_succ w s) \<Longrightarrow> sys_step w s s'"
  by (simp add: sys_step_def sys_succ_def)

lemma sys_step_new: "s' \<in> set (new_succ w s) \<Longrightarrow> sys_step w s s'"
  by (simp add: sys_step_def sys_succ_def)

lemma paused_player_fields:
  "\<not> is_playback_unpaused paused_player" "\<not> no_audio_loaded paused_player"
  "current_frame paused_player = 2" "audio_path paused_player = Some ''a.wav''"
  by (simp_all add: paused_player_def playing_player_fields)

lemma second_file_fields:
  "open_file demo_world (Some ''b.wav'') = Inr second_file"
  "sf_samplerate second_file = 48000" "sf_frames second_file = 3"
  by (simp_all add: demo_world_def second_file_def list_file_def)

lemma swap_init: "paused_with_active_stream (swap_system paused_player M117 (L141 demo_file) None)"
  by (simp add: paused_with_active_stream_def swap_system_def paused_player_fields)

lemma swapped_player_eq:
  "paused_player\<lparr>is_stopped := True, is_playback_unpaused := True,
           no_audio_loaded := True, is_playback_unpaused := False,
           audio_path := Some ''b.wav'', no_audio_loaded := False, is_stopped := False\<rparr>
   = swapped_player"
  by (simp add: swapped_player_def paused_player_def playing_player_def started_player_def
      AudioPlayer_with_volume_def AudioPlayer_init_def)

text \<open>The controller returns while the previous task is between lines 178 and 179.\<close>

lemma swap_run_to_return:
  "sys_run demo_world (swap_system paused_player M117 (L141 demo_file) None)
     (swap_system swapped_player Returned (L179 None) (Some L134))"
proof -
  let ?w = demo_world
  let ?f = demo_file
  let ?p0 = paused_player
  let ?p1 = "?p0\<lparr>is_stopped := True\<rparr>"
  let ?p2 = "?p1\<lparr>is_playback_unpaused := True\<rparr>"
  let ?p3 = "?p2\<lparr>no_audio_loaded := True\<rparr>"
  let ?p4 = "?p3\<lparr>is_playback_unpaused := False\<rparr>"
  let ?p5 = "?p4\<lparr>audio_path := Some ''b.wav''\<rparr>"
  let ?p6 = "?p5\<lparr>no_audio_loaded := False\<rparr>"
  let ?p7 = "?p6\<lparr>is_stopped := False\<rparr>"
  have 1: "sys_step ?w (swap_system ?p0 M117 (L141 ?f) None) (swap_system ?p1 M119 (L141 ?f) None)"
    by (rule sys_step_main) (simp add: main_succ_def swap_system_def)
  have 2: "sys_step ?w (swap_system ?p1 M119 (L141 ?f) None) (swap_system ?p1 M120 (L141 ?f) None)"
    by (rule sys_step_main) (simp add: main_succ_def swap_system_def paused_player_fields)
  have 3: "sys_step ?w (swap_system ?p1 M120 (L141 ?f) None) (swap_system ?p2 M122 (L141 ?f) None)"
    by (rule sys_step_main) (simp add: main_succ_def swap_system_def)
  have 4: "sys_step ?w (swap_system ?p2 M122 (L141 ?f) None) (swap_system ?p2 M122 (L142 ?f) None)"
    by (rule sys_step_old) (simp add: old_succ_def swap_system_def)
  have 5: "sys_step ?w (swap_system ?p2 M122 (L142 ?f) None) (swap_system ?p2 M122 L174 None)"
    by (rule sys_step_old) (simp add: old_succ_def swap_system_def)
  have 6: "sys_step ?w (swap_system ?p2 M122 L174 None)
      (swap_system ?p2 M122 (L177 True None) None)"
    by (rule sys_step_old) (simp add: old_succ_def swap_system_def)
  have 7: "sys_step ?w (swap_system ?p2 M122 (L177 True None) None)
      (swap_system ?p2 M122 (L178 None) None)"
    by (rule sys_step_old) (simp add: old_succ_def swap_system_def)
  have 8: "sys_step ?w (swap_system ?p2 M122 (L178 None) None)
      (swap_system ?p3 M122 (L179 None) None)"
    by (rule sys_step_old) (simp add: old_succ_def swap_system_def)
  have 9: "sys_step ?w (swap_system ?p3 M122 (L179 None) None)
      (swap_system ?p3 M124 (L179 None) None)"
    by (rule sys_step_main) (simp add: main_succ_def swap_system_def)
  have 10: "sys_step ?w (swap_system ?p3 M124 (L179 None) None)
      (swap_system ?p4 M126 (L179 None) None)"
    by (rule sys_step_main) (simp add: main_succ_def swap_system_def)
  have 11: "sys_step ?w (swap_system ?p4 M126 (L179 None) None)
      (swap_system ?p5 M129 (L179 None) None)"
    by (rule sys_step_main) (simp add: main_succ_def swap_system_def)
  have 12: "sys_step ?w (swap_system ?p5 M129 (L179 None) None)
      (swap_system ?p6 M130 (L179 None) None)"
    by (rule sys_step_main) (simp add: main_succ_def swap_system_def)
  have 13: "sys_step ?w (swap_system ?p6 M130 (L179 None) None)
      (swap_system ?p7 M181 (L179 None) None)"
    by (rule sys_step_main) (simp add: main_succ_def swap_system_def)
  have 14: "sys_step ?w (swap_system ?p7 M181 (L179 None) None)
      (swap_system ?p7 Returned (L179 None) (Some L134))"
    by (rule sys_step_main) (simp add: main_succ_def swap_system_def)
  have "sys_run ?w (swap_system ?p0 M117 (L141 ?f) None)
      (swap_system ?p7 Returned (L179 None) (Some L134))"
    by (intro sys_run_step [OF 1] sys_run_step [OF 2] sys_run_step [OF 3] sys_run_step [OF 4]
        sys_run_step [OF 5] sys_run_step [OF 6] sys_run_step [OF 7] sys_run_step [OF 8]
        sys_run_step [OF 9] sys_run_step [OF 10] sys_run_step [OF 11] sys_run_step [OF 12]
        sys_run_step [OF 13] sys_run_step [OF 14] sys_run_refl)
  then show ?thesis by (simp only: swapped_player_eq)
qed

lemma swapped_player_fields:
  "current_frame swapped_player = 2" "\<not> is_playback_unpaused swapped_player"
  "audio_path swapped_player = Some ''b.wav''" "\<not> is_stopped swapped_player"
  by (simp_all add: swapped_player_def paused_player_def playing_player_fields)

lemma swap_run_settles:
  "sys_run demo_world (swap_system swapped_player Returned (L179 None) (Some L134))
     (swap_system settled_player Returned (Exited None) (Some (L141 second_file)))"
proof -
  let ?w = demo_world
  let ?g = second_file
  let ?q0 = swapped_player
  let ?q1 = "?q0\<lparr>current_frame := 0\<rparr>"
  let ?q2 = "?q1\<lparr>audio_sample_rate := 48000, audio_frames := 3\<rparr>"
  have 1: "sys_step ?w (swap_system ?q0 Returned (L179 None) (Some L134))
      (swap_system ?q1 Returned (Exited None) (Some L134))"
    by (rule sys_step_old) (simp add: old_succ_def swap_system_def)
  have 2: "sys_step ?w (swap_system ?q1 Returned (Exited None) (Some L134))
      (swap_system ?q1 Returned (Exited None) (Some L135))"
    by (rule sys_step_new) (simp add: new_succ_def swap_system_def)
  have 3: "sys_step ?w (swap_system ?q1 Returned (Exited None) (Some L135))
      (swap_system ?q1 Returned (Exited None) (Some (L136 ?g)))"
    by (rule sys_step_new)
       (simp add: new_succ_def swap_system_def swapped_player_fields second_file_fields)
  have 4: "sys_step ?w (swap_system ?q1 Returned (Exited None) (Some (L136 ?g)))
      (swap_system ?q2 Returned (Exited None) (Some (L165 ?g)))"
    by (rule sys_step_new)
       (simp add: new_succ_def swap_system_def swapped_player_fields second_file_fields)
  have 5: "sys_step ?w (swap_system ?q2 Returned (Exited None) (Some (L165 ?g)))
      (swap_system ?q2 Returned (Exited None) (Some (L171 ?g)))"
    by (rule sys_step_new) (simp add: new_succ_def swap_system_def)
  have 6: "sys_step ?w (swap_system ?q2 Returned (Exited None) (Some (L171 ?g)))
      (swap_system ?q2 Returned (Exited None) (Some (L141 ?g)))"
    by (rule sys_step_new) (simp add: new_succ_def swap_system_def)
  have "sys_run ?w (swap_system ?q0 Returned (L179 None) (Some L134))
      (swap_system ?q2 Returned (Exited None) (Some (L141 ?g)))"
    by (intro sys_run_step [OF 1] sys_run_step [OF 2] sys_run_step [OF 3] sys_run_step [OF 4]
        sys_run_step [OF 5] sys_run_step [OF 6] sys_run_refl)
  then show ?thesis by (simp add: settled_player_def)
qed

lemma swap_settled_quiescent:
  "sys_succ demo_world (swap_system settled_player Returned (Exited None) (Some (L141 second_file)))
     = []"
  by (simp add: sys_succ_def main_succ_def old_succ_def new_succ_def swap_system_def
      settled_player_def swapped_player_fields)

lemma midchunk_player_fields:
  "\<not> is_playback_unpaused midchunk_player" "\<not> no_audio_loaded midchunk_player"
  "current_frame midchunk_player = 0"
  by (simp_all add: midchunk_player_def playing_player_fields)

lemma midchunk_init:
  "paused_with_active_stream (swap_system midchunk_player M117 (L145 demo_file) None)"
  by (simp add: paused_with_active_stream_def swap_system_def midchunk_player_fields)

lemma waiting_player_fields:
  "is_playback_unpaused waiting_player" "is_stopped waiting_player"
  "\<not> no_audio_loaded waiting_player" "audio_frames waiting_player = 2"
  by (simp_all add: waiting_player_def midchunk_player_def playing_player_fields)

lemma paused_waiting_player_fields:
  "\<not> is_playback_unpaused (pause_audio waiting_player)"
  "\<not> no_audio_loaded (pause_audio waiting_player)"
  "current_frame (pause_audio waiting_player) = 0"
  "audio_sample_rate (pause_audio waiting_player) = 44100"
  "\<not> is_window_focused (pause_audio waiting_player)"
  by (simp_all add: pause_audio_def waiting_player_def midchunk_player_def playing_player_fields)

lemma blocked_player_fields:
  "\<not> is_playback_unpaused blocked_player" "\<not> no_audio_loaded blocked_player"
  by (simp_all add: blocked_player_def paused_waiting_player_fields)

text \<open>The controller reaches its wait at line 122 while the previous callback is in
  its chunk.\<close>

lemma swap_run_to_wait:
  "sys_run demo_world (swap_system midchunk_player M117 (L145 demo_file) None)
     (swap_system waiting_player M122 (L145 demo_file) None)"
proof -
  let ?w = demo_world
  let ?f = demo_file
  let ?p0 = midchunk_player
  let ?p1 = "?p0\<lparr>is_stopped := True\<rparr>"
  let ?p2 = "?p1\<lparr>is_playback_unpaused := True\<rparr>"
  have 1: "sys_step ?w (swap_system ?p0 M117 (L145 ?f) None) (swap_system ?p1 M119 (L145 ?f) None)"
    by (rule sys_step_main) (simp add: main_succ_def swap_system_def)
  have 2: "sys_step ?w (swap_system ?p1 M119 (L145 ?f) None) (swap_system ?p1 M120 (L145 ?f) None)"
    by (rule sys_step_main) (simp add: main_succ_def swap_system_def midchunk_player_fields)
  have 3: "sys_step ?w (swap_system ?p1 M120 (L145 ?f) None) (swap_system ?p2 M122 (L145 ?f) None)"
    by (rule sys_step_main) (simp add: main_succ_def swap_system_def)
  have "sys_run ?w (swap_system ?p0 M117 (L145 ?f) None) (swap_system ?p2 M122 (L145 ?f) None)"
    by (intro sys_run_step [OF 1] sys_run_step [OF 2] sys_run_step [OF 3] sys_run_refl)
  then show ?thesis by (simp add: waiting_player_def)
qed

text \<open>After the other thread's \<^verbatim>\<open>pause_audio\<close>, the callback finishes its chunk
  and the device asks for the next one.\<close>

lemma swap_step_to_blocked:
  "sys_step demo_world (swap_system (pause_audio waiting_player) M122 (L145 demo_file) None)
     (swap_system blocked_player M122 (L141 demo_file) None)"
proof -
  let ?p = "pause_audio waiting_player"
  have "callback_locked demo_meter demo_file 2 ?p =
     (?p\<lparr>current_frame := current_frame ?p + int 2\<rparr>,
      Inr (paContinue (Samples (map (\<lambda>x. x * volume ?p)
           (map (\<lambda>x. peak_scale demo_target / current_peak (zero_to_eps [1 / 2, 0]) * x * (9 / 10)
                       + (1 / 10) * x)
              (zero_to_eps [1 / 2, 0]))))))"
    by (rule callback_locked_value)
       (simp_all add: paused_waiting_player_fields demo_file_ops demo_target_loudness)
  then have "\<exists>buffer. callback_locked demo_meter demo_file 2 ?p
      = (blocked_player, Inr (paContinue buffer))"
    by (simp add: blocked_player_def paused_waiting_player_fields)
  then obtain buffer where b: "callback_locked demo_meter demo_file 2 ?p
      = (blocked_player, Inr (paContinue buffer))"
    by blast
  show ?thesis
    by (rule sys_step_old) (simp add: old_succ_def swap_system_def demo_world_fields b)
qed

text \<open>
  Claim C1. The call is to end without deadlock and with the cursor at 0; the wait on
  \<open>no_audio_loaded\<close> and the forced unpaused event are there for that. Two schedules
  defeat them, here on \<^verbatim>\<open>start_audio_playback('b.wav', 2)\<close> called while
  \<open>a.wav\<close> is loaded and paused.

  The previous task sets \<open>no_audio_loaded\<close> at line 178 and resets the cursor at line
  180 only after that: the controller can leave its wait, install the path, spawn the
  new task and return in between. With \<open>a.wav\<close> paused at frame 2, the controller
  has returned and the cursor is still at frame 2 of the previous file.

  The unpaused event that the controller forces at line 120 is the one
  \<^verbatim>\<open>pause_audio\<close> clears. With the pause made while the first callback is past its
  wait (line 145), the controller reaches its wait at line 122; a call of
  \<^verbatim>\<open>pause_audio\<close> by another thread (the key listener of \<^verbatim>\<open>Main_player.py\<close>
  calls \<^verbatim>\<open>toggle_pause\<close>) clears the event again; the callback ends its chunk and the
  next one stops at the wait of line 141. No thread of the call has a step then: the
  controller waits for \<open>no_audio_loaded\<close>, the previous task for the unpaused event.
\<close>

theorem start_while_paused_races:
  "paused_with_active_stream (swap_system paused_player M117 (L141 demo_file) None)
   \<and> sys_run demo_world (swap_system paused_player M117 (L141 demo_file) None)
         (swap_system swapped_player Returned (L179 None) (Some L134))
   \<and> main (swap_system swapped_player Returned (L179 None) (Some L134)) = Returned
   \<and> current_frame (shared (swap_system swapped_player Returned (L179 None) (Some L134))) = 2
   \<and> paused_with_active_stream (swap_system midchunk_player M117 (L145 demo_file) None)
   \<and> sys_run demo_world (swap_system midchunk_player M117 (L145 demo_file) None)
         (swap_system waiting_player M122 (L145 demo_file) None)
   \<and> is_playback_unpaused waiting_player
   \<and> \<not> is_playback_unpaused (pause_audio waiting_player)
   \<and> sys_run demo_world (swap_system (pause_audio waiting_player) M122 (L145 demo_file) None)
         (swap_system blocked_player M122 (L141 demo_file) None)
   \<and> main (swap_system blocked_player M122 (L141 demo_file) None) = M122
   \<and> sys_succ demo_world (swap_system blocked_player M122 (L141 demo_file) None) = []"
proof -
  have a: "current_frame (shared (swap_system swapped_player Returned (L179 None) (Some L134))) = 2"
    "main (swap_system swapped_player Returned (L179 None) (Some L134)) = Returned"
    by (simp_all add: swap_system_def swapped_player_fields)
  have r: "sys_run demo_world (swap_system (pause_audio waiting_player) M122 (L145 demo_file) None)
         (swap_system blocked_player M122 (L141 demo_file) None)"
    by (intro sys_run_step [OF swap_step_to_blocked] sys_run_refl)
  have c: "sys_succ demo_world (swap_system blocked_player M122 (L141 demo_file) None) = []"
    by (simp add: sys_succ_def main_succ_def old_succ_def new_succ_def swap_system_def
        blocked_player_fields)
  have d: "main (swap_system blocked_player M122 (L141 demo_file) None) = M122"
    by (simp add: swap_system_def)
  show ?thesis
    using swap_init swap_run_to_return a midchunk_init swap_run_to_wait
      waiting_player_fields(1) paused_waiting_player_fields(1) r d c
    by blast
qed

text \<open>The three threads alone, on the first of these runs continued until no thread
  has a step: the previous task has exited, the new one has opened \<open>b.wav\<close> and
  waits, paused, at line 141.\<close>

theorem paused_swap_alone_example:
  "paused_with_active_stream (swap_system paused_player M117 (L141 demo_file) None)
   \<and> sys_run demo_world (swap_system paused_player M117 (L141 demo_file) None)
         (swap_system settled_player Returned (Exited None) (Some (L141 second_file)))
   \<and> sys_succ demo_world
         (swap_system settled_player Returned (Exited None) (Some (L141 second_file))) = []
   \<and> main (swap_system settled_player Returned (Exited None) (Some (L141 second_file))) = Returned
   \<and> current_frame
        (shared (swap_system settled_player Returned (Exited None) (Some (L141 second_file)))) = 0
   \<and> \<not> is_playback_unpaused
        (shared (swap_system settled_player Returned (Exited None) (Some (L141 second_file))))
   \<and> path_installed (swap_system settled_player Returned (Exited None) (Some (L141 second_file)))"
proof -
  have r1: "sys_run demo_world (swap_system paused_player M117 (L141 demo_file) None)
         (swap_system swapped_player Returned (L179 None) (Some L134))"
    by (rule swap_run_to_return)
  have r: "sys_run demo_world (swap_system paused_player M117 (L141 demo_file) None)
         (swap_system settled_player Returned (Exited None) (Some (L141 second_file)))"
    using r1 swap_run_settles by (rule sys_run_trans)
  note q = swap_settled_quiescent
  show ?thesis
    using paused_swap_alone [OF swap_init r] swap_init r q by simp
qed

subsection \<open>Restart with no path\<close>





















end
